theory Spec2Isabelle
  imports Main
begin

section \<open>Strings and the regular expressions of the source\<close>

text \<open>
  The generator \<^verbatim>\<open>bin/iam_template_build.py\<close> works on Python strings. A string of the
  model is a \<^typ>\<open>string\<close>; each of its characters is read as one of the first 256 code
  points of a Python string, the ASCII characters and, above them, the characters of the
  Latin-1 block. The regular-expression engine is the one of Python 3, which reads the
  classes of a text pattern by the Unicode properties of the characters: \<^verbatim>\<open>\w\<close> is a
  letter, a digit or another numeric character, or the underscore; \<^verbatim>\<open>\W\<close> is its
  complement; \<^verbatim>\<open>.\<close> is every character but the line feed; and \<^verbatim>\<open>$\<close> holds at the end of
  the string and in front of a line feed that ends the string. (The engine of Python 2
  reads \<^verbatim>\<open>\w\<close> as \<^verbatim>\<open>[a-zA-Z0-9_]\<close>; the two agree on ASCII text.)
\<close>

definition line_feed :: char where
  "line_feed = CHR 0x0A"

definition word_char :: "char \<Rightarrow> bool" where
  \<comment> \<open>The class \<^verbatim>\<open>\w\<close>, by code points. ASCII: the digits, the capitals, the small letters
      and the underscore. Latin-1: the ordinal indicators (170, 186), the superscript
      digits (178, 179, 185), the micro sign (181), the fractions (188 to 190) and the
      letters from 192 to 255, which leave out the signs of multiplication (215) and
      division (247).\<close>
  "word_char c =
     (let n = (of_char c :: nat)
      in (48 \<le> n \<and> n \<le> 57) \<or> (65 \<le> n \<and> n \<le> 90) \<or> (97 \<le> n \<and> n \<le> 122) \<or> n = 95
         \<or> n = 170 \<or> n = 178 \<or> n = 179 \<or> n = 181 \<or> n = 185 \<or> n = 186
         \<or> (188 \<le> n \<and> n \<le> 190)
         \<or> (192 \<le> n \<and> n \<le> 255 \<and> n \<noteq> 215 \<and> n \<noteq> 247))"

definition scrubbed_char :: "char \<Rightarrow> bool" where
  \<comment> \<open>The class \<^verbatim>\<open>[\W_]\<close> of \<^verbatim>\<open>scrub_name\<close>.\<close>
  "scrubbed_char c = (\<not> word_char c \<or> c = CHR ''_'')"

text \<open>
  \<^verbatim>\<open>def scrub_name(name): return(re.sub('[\W_]+', '', name))\<close>

  \<^verbatim>\<open>re.sub\<close> scans from the left; at a character of the class it deletes the longest run of
  such characters and goes on behind the run; every other character is copied.
\<close>

function scrub_name :: "string \<Rightarrow> string" where
  "scrub_name [] = []"
| "scrub_name (c # cs) =
     (if scrubbed_char c then scrub_name (dropWhile scrubbed_char cs) else c # scrub_name cs)"
  by pat_completeness auto
termination
  by (relation "measure length") (auto simp: less_Suc_eq_le length_dropWhile_le)

definition in_AZaz09 :: "char \<Rightarrow> bool" where
  \<comment> \<open>The class \<^verbatim>\<open>[A-Za-z0-9]\<close>, character by character: the class that the specification
      names, and the class of the titles that the troposphere library accepts.\<close>
  "in_AZaz09 c =
     (c \<in> set ''ABCDEFGHIJKLMNOPQRSTUVWXYZabcdefghijklmnopqrstuvwxyz0123456789'')"


section \<open>Errors, template values and policy documents\<close>

text \<open>
  Every failure of the source is a raised exception that ends the run. The source raises
  \<^verbatim>\<open>ValueError\<close> with a message; reading a key that a dictionary does not hold raises
  \<^verbatim>\<open>KeyError\<close>. The troposphere library raises \<^verbatim>\<open>ValueError\<close> for a title it refuses and
  \<^verbatim>\<open>TypeError\<close> for a property of the wrong type; the text of its \<^verbatim>\<open>TypeError\<close> prints
  Python classes and is not modelled: the argument of \<open>TypeError\<close> is the name of the
  refused property. The configuration helper \<^verbatim>\<open>lib/config_helper.py\<close> is not among the
  sources; \<open>UnknownAccountError\<close> is the name the specification gives to the failure of
  its \<^verbatim>\<open>map_account\<close>.
\<close>

datatype error =
  ValueError string | KeyError string | TypeError string | UnknownAccountError string

definition quoted :: "string \<Rightarrow> string" where
  \<comment> \<open>The text \<^verbatim>\<open>'{}'\<close> of a message after \<^verbatim>\<open>format\<close>.\<close>
  "quoted s = [CHR 0x27] @ s @ [CHR 0x27]"

definition double_quoted :: "string \<Rightarrow> string" where
  \<comment> \<open>A text between two double quotes, as the messages of the library have it.\<close>
  "double_quoted s = [CHR 0x22] @ s @ [CHR 0x22]"

text \<open>
  An entry of a list of a resource is a plain string or one of the template functions
  \<^verbatim>\<open>ImportValue\<close>, \<^verbatim>\<open>Ref\<close> and \<^verbatim>\<open>GetAtt\<close> of the troposphere library.
\<close>

datatype cfn_value = Str string | ImportValue string | Ref string | GetAtt string string

datatype sub = Sub string

datatype export = Export sub

text \<open>
  A policy document is the dictionary \<^verbatim>\<open>{"Version": ..., "Statement": [...]}\<close>. A statement
  is a dictionary with the keys \<^verbatim>\<open>Effect\<close> and \<^verbatim>\<open>Action\<close> and, depending on its builder,
  \<^verbatim>\<open>Principal\<close>, \<^verbatim>\<open>Resource\<close> and \<^verbatim>\<open>Condition\<close>; a key that is absent is \<open>None\<close>. A
  principal is a dictionary with the single key \<^verbatim>\<open>AWS\<close>, \<^verbatim>\<open>Service\<close> or \<^verbatim>\<open>Federated\<close>.
\<close>

datatype principal = AWS string | Service string | Federated string

record statement =
  Effect :: string
  Principal :: "principal option"
  Action :: string
  Resource :: "string option"
  Condition :: "(string \<times> (string \<times> string) list) list option"

record policy =
  Version :: string
  Statement :: "statement list"

text \<open>
  The document of a managed policy is a Python value: a string (the empty string with
  which the policy loop starts), the dictionary built from the \<^verbatim>\<open>assume\<close> shorthand, or
  what \<^verbatim>\<open>json.loads\<close> made of the rendered policy file. A parsed dictionary is \<open>DocJson\<close>
  with its content, a structured value of a type \<open>'j\<close> that the generator never looks
  into; a parsed string is \<open>DocText\<close>; a parsed value that is neither (a list, a number,
  a truth value, \<^verbatim>\<open>null\<close>) is \<open>DocOther\<close>.
\<close>

datatype 'j policy_document = DocText string | DocOther | DocJson 'j | DocPolicy policy

section \<open>Resources, outputs and the template of an account\<close>

text \<open>
  The keyword arguments \<^verbatim>\<open>kw_args\<close> of each resource class, one record per class; a key
  that is set only under a condition is an option.
\<close>

record 'j managed_policy_args =
  mp_Description :: string
  mp_PolicyDocument :: "'j policy_document"
  mp_Groups :: "cfn_value list"
  mp_Roles :: "cfn_value list"
  mp_Users :: "cfn_value list"
  mp_ManagedPolicyName :: "string option"
  mp_DeletionPolicy :: "string option"

record instance_profile_args =
  ip_Path :: string
  ip_Roles :: "cfn_value list"
  ip_InstanceProfileName :: "string option"
  ip_DeletionPolicy :: "string option"

record role_args =
  role_Path :: string
  role_AssumeRolePolicyDocument :: policy
  role_ManagedPolicyArns :: "cfn_value list"
  role_Policies :: "cfn_value list"
  role_RoleName :: "string option"
  role_DeletionPolicy :: "string option"

record group_args =
  group_Path :: string
  group_ManagedPolicyArns :: "cfn_value list"
  group_Policies :: "cfn_value list"
  group_GroupName :: "string option"
  group_DeletionPolicy :: "string option"

datatype login_profile = LoginProfile string bool

record user_args =
  user_Path :: string
  user_Groups :: "cfn_value list"
  user_ManagedPolicyArns :: "cfn_value list"
  user_Policies :: "cfn_value list"
  user_UserName :: "string option"
  user_LoginProfile :: "login_profile option"
  user_DeletionPolicy :: "string option"

datatype 'j resource =
    ManagedPolicy string "'j managed_policy_args"
  | InstanceProfile string instance_profile_args
  | Role string role_args
  | Group string group_args
  | User string user_args

record cfn_output =
  out_title :: string
  out_Description :: string
  out_Value :: cfn_value
  out_Export :: export

text \<open>
  The template of an account (\<^verbatim>\<open>troposphere.Template\<close>) is read as its resources and its
  outputs in the order of registration.
\<close>

record 'j template_doc =
  resources :: "'j resource list"
  outputs :: "cfn_output list"

section \<open>The configuration\<close>

text \<open>
  A model is the dictionary of one entity of \<^verbatim>\<open>config.yaml\<close>. The same dictionary type
  serves policies, roles, groups and users: each key that the source reads is a field, and
  a key that is absent is \<open>None\<close>. A key that the source tests with \<^verbatim>\<open>in\<close> before it reads
  it is an option; so is \<^verbatim>\<open>trusts\<close>, which \<^verbatim>\<open>add_role\<close> reads without a test and whose absence
  is the \<^verbatim>\<open>KeyError\<close> of the source. The other keys that the source reads without a test
  (the section \<^verbatim>\<open>global\<close> with its names and its flag, the two lists of \<^verbatim>\<open>assume\<close>) are
  fields of their type: the embedding starts from a configuration of the shape that
  section 6 of the specification gives, with strings where the source concatenates and
  lists of strings where it iterates.
\<close>

record assume_model =
  assume_accounts :: "string list"
  assume_roles :: "string list"

record 'j model =
  model_policy_file :: "string option"
  model_template_vars :: "'j option"
  model_assume :: "assume_model option"
  model_in_accounts :: "string list option"
  model_description :: "string option"
  model_groups :: "string list option"
  model_users :: "string list option"
  model_roles :: "string list option"
  model_trusts :: "string list option"
  model_managed_policies :: "string list option"
  model_password :: "string option"
  model_retain_on_delete :: "bool option"

record global_section =
  names_policies :: bool
  names_roles :: bool
  names_users :: bool
  names_groups :: bool
  template_outputs :: string

record 'j config_tree =
  cfg_global :: global_section
  cfg_policies :: "(string \<times> 'j model) list option"
  cfg_roles :: "(string \<times> 'j model) list option"
  cfg_groups :: "(string \<times> 'j model) list option"
  cfg_users :: "(string \<times> 'j model) list option"

text \<open>
  The object \<^verbatim>\<open>c\<close> of the class \<^verbatim>\<open>config\<close>. Its attributes are fields; its methods
  \<^verbatim>\<open>search_accounts\<close>, \<^verbatim>\<open>map_account\<close>, \<^verbatim>\<open>is_local_managed_policy\<close> and
  \<^verbatim>\<open>is_managed_policy_in_account\<close>, whose code is in \<^verbatim>\<open>lib/config_helper.py\<close> and not
  among the sources, are fields too: the functions of this theory hold for every behaviour
  of these four methods. The generator assigns \<^verbatim>\<open>current_account\<close> and changes the
  templates; it changes nothing else.
\<close>

record 'j config =
  config :: "'j config_tree"
  account_map_ids :: "string \<rightharpoonup> string"
  parent_account_id :: string
  saml_provider :: "string option"
  current_account :: string
  template :: "string \<rightharpoonup> 'j template_doc"
  search_accounts :: "string list \<Rightarrow> string list"
  map_account :: "string \<Rightarrow> error + string"
  is_local_managed_policy :: "string \<Rightarrow> bool"
  is_managed_policy_in_account :: "string \<Rightarrow> string \<Rightarrow> bool"

section \<open>Import references and managed-policy references\<close>

definition import_prefix :: "string \<Rightarrow> bool" where
  \<comment> \<open>\<^verbatim>\<open>re.match("^import:", element)\<close>\<close>
  "import_prefix element = (take 7 element = ''import:'')"

definition import_group :: "string \<Rightarrow> string" where
  \<comment> \<open>\<^verbatim>\<open>re.match("^import:(.*)", element).group(1)\<close>: the group \<^verbatim>\<open>(.*)\<close> ends in front
      of the first line feed.\<close>
  "import_group element = takeWhile (\<lambda>ch. ch \<noteq> line_feed) (drop 7 element)"

definition arn_prefix :: "string \<Rightarrow> bool" where
  \<comment> \<open>\<^verbatim>\<open>re.match("arn:aws", managed_policy)\<close>\<close>
  "arn_prefix managed_policy = (take 7 managed_policy = ''arn:aws'')"

text \<open>
  \<^verbatim>\<open>
  def parse_imports(c, element_list):
      return_list = []
      for element in element_list:
          if re.match("^import:", element):
              m = re.match("^import:(.*)", element)
              return_list.append(ImportValue(m.group(1)))
          else:
              return_list.append(element)
      return(return_list)
  \<close>
\<close>

fun parse_imports :: "'j config \<Rightarrow> string list \<Rightarrow> cfn_value list" where
  "parse_imports c [] = []"
| "parse_imports c (element # element_list) =
     (if import_prefix element then ImportValue (import_group element) else Str element)
       # parse_imports c element_list"

definition not_in_account_error :: "string \<Rightarrow> string \<Rightarrow> string \<Rightarrow> error" where
  "not_in_account_error working_on managed_policy account =
     ValueError (''Working on: '' @ quoted working_on @ '' - Managed Policy: ''
       @ quoted managed_policy @ '' is not configured to go into account: '' @ quoted account)"

definition not_in_configuration_error :: "string \<Rightarrow> string \<Rightarrow> error" where
  "not_in_configuration_error working_on managed_policy =
     ValueError (''Working on: '' @ quoted working_on @ '' - Managed Policy: ''
       @ quoted managed_policy @ '' does not exist in the configuration file'')"

text \<open>
  The body of the loop of \<^verbatim>\<open>parse_managed_policies\<close>: what one reference appends to the
  list, or the exception it raises. The argument of \<^verbatim>\<open>is_managed_policy_in_account\<close>,
  \<^verbatim>\<open>c.map_account(c.current_account)\<close>, is evaluated before the call and only for a
  reference that \<^verbatim>\<open>is_local_managed_policy\<close> accepts.
\<close>

definition managed_policy_entry :: "'j config \<Rightarrow> string \<Rightarrow> string \<Rightarrow> error + cfn_value" where
  "managed_policy_entry c managed_policy working_on =
     (if arn_prefix managed_policy then Inr (Str managed_policy)
      else if import_prefix managed_policy then Inr (ImportValue (import_group managed_policy))
      else if is_local_managed_policy c managed_policy then
        (case map_account c (current_account c) of
           Inl e \<Rightarrow> Inl e
         | Inr account \<Rightarrow>
             if is_managed_policy_in_account c managed_policy account
             then Inr (Ref (scrub_name managed_policy))
             else Inl (not_in_account_error working_on managed_policy (current_account c)))
      else Inl (not_in_configuration_error working_on managed_policy))"

fun parse_managed_policies :: "'j config \<Rightarrow> string list \<Rightarrow> string \<Rightarrow> error + cfn_value list" where
  "parse_managed_policies c [] working_on = Inr []"
| "parse_managed_policies c (managed_policy # managed_policies) working_on =
     (case managed_policy_entry c managed_policy working_on of
        Inl e \<Rightarrow> Inl e
      | Inr v \<Rightarrow>
          (case parse_managed_policies c managed_policies working_on of
             Inl e \<Rightarrow> Inl e
           | Inr vs \<Rightarrow> Inr (v # vs)))"

section \<open>The trust statement builder\<close>

definition dotted_name :: "string \<Rightarrow> bool" where
  \<comment> \<open>\<^verbatim>\<open>re.match("^.*\..*?$", trust)\<close>: neither \<^verbatim>\<open>.*\<close> nor \<^verbatim>\<open>.*?\<close> crosses a line feed,
      so the dot stands in the first line, and \<^verbatim>\<open>$\<close> wants that line to end the string or
      to be followed by one line feed that ends it.\<close>
  "dotted_name trust =
     (let first_line = takeWhile (\<lambda>ch. ch \<noteq> line_feed) trust;
          behind = dropWhile (\<lambda>ch. ch \<noteq> line_feed) trust
      in CHR ''.'' \<in> set first_line \<and> (behind = [] \<or> behind = [line_feed]))"

definition unresolved_trust_error :: "string \<Rightarrow> error" where
  "unresolved_trust_error trust =
     ValueError (''Uanble to find trust name '' @ quoted trust
       @ '' in the config.yaml. Assure it exists in the account section.'')"

text \<open>
  The body of the first loop of \<^verbatim>\<open>build_role_trust\<close>: the principal that one specifier
  appends to \<^verbatim>\<open>sts_principals\<close> or to \<^verbatim>\<open>saml_principals\<close>, or the exception it raises. A
  non-empty answer of \<^verbatim>\<open>c.search_accounts([trust])\<close> is true; its first element is looked
  up in \<^verbatim>\<open>c.account_map_ids\<close>. In the second branch \<^verbatim>\<open>c.saml_provider\<close> is the specifier
  itself, which the model appends to the provider path.
\<close>

datatype trust_entry = StsPrincipal principal | SamlPrincipal principal

definition trust_principal :: "'j config \<Rightarrow> string \<Rightarrow> error + trust_entry" where
  "trust_principal c trust =
     (case search_accounts c [trust] of
        trust_account # _ \<Rightarrow>
          (case account_map_ids c trust_account of
             None \<Rightarrow> Inl (KeyError trust_account)
           | Some account_id \<Rightarrow>
               Inr (StsPrincipal (AWS (''arn:aws:iam::'' @ account_id @ '':root''))))
      | [] \<Rightarrow>
          if Some trust = saml_provider c then
            Inr (SamlPrincipal
                   (Federated (''arn:aws:iam::'' @ parent_account_id c @ '':saml-provider/'' @ trust)))
          else if dotted_name trust then Inr (StsPrincipal (Service trust))
          else Inl (unresolved_trust_error trust))"

fun trust_principals ::
  "'j config \<Rightarrow> string list \<Rightarrow> principal list \<Rightarrow> principal list
     \<Rightarrow> error + (principal list \<times> principal list)" where
  "trust_principals c [] sts_principals saml_principals = Inr (sts_principals, saml_principals)"
| "trust_principals c (trust # trusts) sts_principals saml_principals =
     (case trust_principal c trust of
        Inl e \<Rightarrow> Inl e
      | Inr (StsPrincipal p) \<Rightarrow> trust_principals c trusts (sts_principals @ [p]) saml_principals
      | Inr (SamlPrincipal p) \<Rightarrow> trust_principals c trusts sts_principals (saml_principals @ [p]))"

definition sts_statement :: "principal \<Rightarrow> statement" where
  "sts_statement sts_principal =
     \<lparr>Effect = ''Allow'', Principal = Some sts_principal, Action = ''sts:AssumeRole'',
      Resource = None, Condition = None\<rparr>"

definition saml_statement :: "principal \<Rightarrow> statement" where
  "saml_statement saml_principal =
     \<lparr>Effect = ''Allow'', Principal = Some saml_principal, Action = ''sts:AssumeRoleWithSAML'',
      Resource = None,
      Condition = Some [(''StringEquals'', [(''SAML:aud'', ''https://signin.aws.amazon.com/saml'')])]\<rparr>"

definition build_role_trust :: "'j config \<Rightarrow> string list \<Rightarrow> error + policy" where
  "build_role_trust c trusts =
     (case trust_principals c trusts [] [] of
        Inl e \<Rightarrow> Inl e
      | Inr (sts_principals, saml_principals) \<Rightarrow>
          Inr \<lparr>Version = ''2012-10-17'',
               Statement = map sts_statement sts_principals @ map saml_statement saml_principals\<rparr>)"

text \<open>
  The three kinds of a specifier, as the tests of the loop tell them apart: the account
  resolver finds it; it is not found and is the SAML provider; it is neither and has the
  dotted form.
\<close>

definition account_specifier :: "'j config \<Rightarrow> string \<Rightarrow> bool" where
  "account_specifier c trust = (search_accounts c [trust] \<noteq> [])"

definition saml_specifier :: "'j config \<Rightarrow> string \<Rightarrow> bool" where
  "saml_specifier c trust = (search_accounts c [trust] = [] \<and> saml_provider c = Some trust)"

definition service_specifier :: "'j config \<Rightarrow> string \<Rightarrow> bool" where
  "service_specifier c trust =
     (search_accounts c [trust] = [] \<and> saml_provider c \<noteq> Some trust \<and> dotted_name trust)"

definition sts_count :: "'j config \<Rightarrow> string list \<Rightarrow> nat" where
  \<comment> \<open>The number of specifiers whose principal goes to \<^verbatim>\<open>sts_principals\<close>.\<close>
  "sts_count c trusts =
     length (filter (account_specifier c) trusts) + length (filter (service_specifier c) trusts)"

section \<open>The assume shorthand\<close>

definition build_sts_statement :: "string \<Rightarrow> string \<Rightarrow> statement" where
  "build_sts_statement account role =
     \<lparr>Effect = ''Allow'', Principal = None, Action = ''sts:AssumeRole'',
      Resource = Some (''arn:aws:iam::'' @ account @ '':role/'' @ role), Condition = None\<rparr>"

text \<open>
  \<^verbatim>\<open>
  for role in roles:
      for account in accounts:
          policy_statement["Statement"].append(
              build_sts_statement(c.map_account(account), role))
  \<close>
  The inner loop of one role, then the outer loop; \<^verbatim>\<open>c.map_account\<close> may raise.
\<close>

fun assume_statements_of_role :: "'j config \<Rightarrow> string list \<Rightarrow> string \<Rightarrow> error + statement list" where
  "assume_statements_of_role c [] role = Inr []"
| "assume_statements_of_role c (account # accounts) role =
     (case map_account c account of
        Inl e \<Rightarrow> Inl e
      | Inr account_id \<Rightarrow>
          (case assume_statements_of_role c accounts role of
             Inl e \<Rightarrow> Inl e
           | Inr sts \<Rightarrow> Inr (build_sts_statement account_id role # sts)))"

fun assume_statements :: "'j config \<Rightarrow> string list \<Rightarrow> string list \<Rightarrow> error + statement list" where
  "assume_statements c accounts [] = Inr []"
| "assume_statements c accounts (role # roles) =
     (case assume_statements_of_role c accounts role of
        Inl e \<Rightarrow> Inl e
      | Inr sts \<Rightarrow>
          (case assume_statements c accounts roles of
             Inl e \<Rightarrow> Inl e
           | Inr sts' \<Rightarrow> Inr (sts @ sts')))"

definition build_assume_role_policy_document ::
  "'j config \<Rightarrow> string list \<Rightarrow> string list \<Rightarrow> error + policy" where
  "build_assume_role_policy_document c accounts roles =
     (case assume_statements c accounts roles of
        Inl e \<Rightarrow> Inl e
      | Inr sts \<Rightarrow> Inr \<lparr>Version = ''2012-10-17'', Statement = sts\<rparr>)"

section \<open>The resource assemblers\<close>

text \<open>
  The resource classes and the template are those of the troposphere library, which is
  not among the sources; the model takes from it the checks that the assemblers can
  meet. The constructor of a resource and of an output validates a title that is not empty
  (\<^verbatim>\<open>if self.title: self.validate_title()\<close>, with the pattern \<^verbatim>\<open>^[a-zA-Z0-9]+$\<close>, whose \<^verbatim>\<open>$\<close>
  also holds in front of a final line feed) and then the types of the properties: the
  \<^verbatim>\<open>PolicyDocument\<close> of a managed policy must be a dictionary. \<^verbatim>\<open>Template.add_resource\<close> and
  \<^verbatim>\<open>Template.add_output\<close> refuse a title that the template already holds. These are the
  refusals of the model. The library has further checks that depend on its version (the
  number of resources and outputs of a template, the form of an explicit name); they are
  outside the embedding, so a call that returns in the model may raise in the library,
  and what a theorem says of a call that returns holds of the library all the same.
\<close>

definition valid_title :: "string \<Rightarrow> bool" where
  \<comment> \<open>\<^verbatim>\<open>valid_names.match(title)\<close>\<close>
  "valid_title title =
     (let body = (if title \<noteq> [] \<and> last title = line_feed then butlast title else title)
      in body \<noteq> [] \<and> list_all in_AZaz09 body)"

definition title_refused :: "string \<Rightarrow> error option" where
  "title_refused title =
     (if title \<noteq> [] \<and> \<not> valid_title title
      then Some (ValueError (''Name '' @ double_quoted title @ '' not alphanumeric''))
      else None)"

fun resource_title :: "'j resource \<Rightarrow> string" where
  "resource_title (ManagedPolicy title _) = title"
| "resource_title (InstanceProfile title _) = title"
| "resource_title (Role title _) = title"
| "resource_title (Group title _) = title"
| "resource_title (User title _) = title"

fun properties_refused :: "'j resource \<Rightarrow> error option" where
  "properties_refused (ManagedPolicy _ kw_args) =
     (case mp_PolicyDocument kw_args of
        DocText _ \<Rightarrow> Some (TypeError ''PolicyDocument'')
      | DocOther \<Rightarrow> Some (TypeError ''PolicyDocument'')
      | DocJson _ \<Rightarrow> None
      | DocPolicy _ \<Rightarrow> None)"
| "properties_refused (InstanceProfile _ _) = None"
| "properties_refused (Role _ _) = None"
| "properties_refused (Group _ _) = None"
| "properties_refused (User _ _) = None"

definition resource_refused :: "'j resource \<Rightarrow> error option" where
  \<comment> \<open>What the constructor of the resource raises: the title first, then the properties.\<close>
  "resource_refused r =
     (case title_refused (resource_title r) of
        Some e \<Rightarrow> Some e
      | None \<Rightarrow> properties_refused r)"

definition duplicate_key_error :: "string \<Rightarrow> error" where
  "duplicate_key_error title = ValueError (''duplicate key '' @ double_quoted title @ '' detected'')"

text \<open>
  \<^verbatim>\<open>c.template[c.current_account].add_resource(<Class>(cfn_name, **kw_args))\<close>: the template
  of the current account is looked up (a \<^verbatim>\<open>KeyError\<close> when the account has none), the
  resource is constructed, and the template takes it unless it holds the title.
\<close>

definition add_resource :: "'j config \<Rightarrow> 'j resource \<Rightarrow> error + 'j config" where
  "add_resource c r =
     (case template c (current_account c) of
        None \<Rightarrow> Inl (KeyError (current_account c))
      | Some t \<Rightarrow>
          (case resource_refused r of
             Some e \<Rightarrow> Inl e
           | None \<Rightarrow>
               if resource_title r \<in> set (map resource_title (resources t))
               then Inl (duplicate_key_error (resource_title r))
               else Inr (c\<lparr>template := (template c)(current_account c \<mapsto>
                              t\<lparr>resources := resources t @ [r]\<rparr>)\<rparr>)))"

text \<open>
  \<^verbatim>\<open>c.template[c.current_account].add_output([Output(...), ...])\<close>: the template is looked
  up, the outputs of the list are constructed, and the template takes them one after the
  other unless it holds the title of one.
\<close>

fun outputs_refused :: "cfn_output list \<Rightarrow> error option" where
  "outputs_refused [] = None"
| "outputs_refused (out # outs) =
     (case title_refused (out_title out) of
        Some e \<Rightarrow> Some e
      | None \<Rightarrow> outputs_refused outs)"

fun update_outputs :: "cfn_output list \<Rightarrow> cfn_output list \<Rightarrow> error + cfn_output list" where
  "update_outputs held [] = Inr held"
| "update_outputs held (out # outs) =
     (if out_title out \<in> set (map out_title held)
      then Inl (duplicate_key_error (out_title out))
      else update_outputs (held @ [out]) outs)"

definition add_output :: "'j config \<Rightarrow> cfn_output list \<Rightarrow> error + 'j config" where
  "add_output c os =
     (case template c (current_account c) of
        None \<Rightarrow> Inl (KeyError (current_account c))
      | Some t \<Rightarrow>
          (case outputs_refused os of
             Some e \<Rightarrow> Inl e
           | None \<Rightarrow>
               (case update_outputs (outputs t) os of
                  Inl e \<Rightarrow> Inl e
                | Inr held \<Rightarrow>
                    Inr (c\<lparr>template := (template c)(current_account c \<mapsto>
                              t\<lparr>outputs := held\<rparr>)\<rparr>))))"

definition outputs_enabled :: "'j config \<Rightarrow> bool" where
  \<comment> \<open>\<^verbatim>\<open>c.config['global']['template_outputs'] == "enabled"\<close>\<close>
  "outputs_enabled c = (template_outputs (cfg_global (config c)) = ''enabled'')"

definition deletion_policy :: "'j model \<Rightarrow> string option" where
  \<comment> \<open>\<^verbatim>\<open>if "retain_on_delete" in model: if model["retain_on_delete"] is True: ...\<close>\<close>
  "deletion_policy model =
     (case model_retain_on_delete model of
        None \<Rightarrow> None
      | Some b \<Rightarrow> if b then Some ''Retain'' else None)"

definition managed_policy_kw_args ::
  "'j config \<Rightarrow> string \<Rightarrow> 'j policy_document \<Rightarrow> 'j model \<Rightarrow> bool \<Rightarrow> 'j managed_policy_args" where
  "managed_policy_kw_args c ManagedPolicyName PolicyDocument model named =
     \<lparr>mp_Description =
        (case model_description model of
           None \<Rightarrow> ''Managed Policy '' @ ManagedPolicyName
         | Some d \<Rightarrow> d),
      mp_PolicyDocument = PolicyDocument,
      mp_Groups = (case model_groups model of None \<Rightarrow> [] | Some gs \<Rightarrow> parse_imports c gs),
      mp_Roles = (case model_roles model of None \<Rightarrow> [] | Some rs \<Rightarrow> parse_imports c rs),
      mp_Users = (case model_users model of None \<Rightarrow> [] | Some us \<Rightarrow> parse_imports c us),
      mp_ManagedPolicyName = (if named then Some ManagedPolicyName else None),
      mp_DeletionPolicy = deletion_policy model\<rparr>"

definition managed_policy_output :: "string \<Rightarrow> string \<Rightarrow> cfn_output" where
  "managed_policy_output cfn_name description =
     \<lparr>out_title = cfn_name @ ''PolicyArn'',
      out_Description = description @ '' Policy Document ARN'',
      out_Value = Ref cfn_name,
      out_Export = Export (Sub (''${AWS::StackName}-'' @ cfn_name @ ''PolicyArn''))\<rparr>"

definition add_managed_policy ::
  "'j config \<Rightarrow> string \<Rightarrow> 'j policy_document \<Rightarrow> 'j model \<Rightarrow> bool \<Rightarrow> error + 'j config" where
  "add_managed_policy c ManagedPolicyName PolicyDocument model named =
     (let cfn_name = scrub_name ManagedPolicyName;
          kw_args = managed_policy_kw_args c ManagedPolicyName PolicyDocument model named
      in case add_resource c (ManagedPolicy cfn_name kw_args) of
           Inl e \<Rightarrow> Inl e
         | Inr c' \<Rightarrow>
             if outputs_enabled c'
             then add_output c' [managed_policy_output cfn_name (mp_Description kw_args)]
             else Inr c')"

definition instance_profile_kw_args :: "string \<Rightarrow> 'j model \<Rightarrow> bool \<Rightarrow> instance_profile_args" where
  "instance_profile_kw_args RoleName model named =
     \<lparr>ip_Path = ''/'',
      ip_Roles = [Ref (scrub_name (RoleName @ ''Role''))],
      ip_InstanceProfileName = (if named then Some RoleName else None),
      ip_DeletionPolicy = deletion_policy model\<rparr>"

definition arn_output :: "string \<Rightarrow> string \<Rightarrow> cfn_value \<Rightarrow> cfn_output" where
  \<comment> \<open>The output of an instance profile, a role, a group and a user.\<close>
  "arn_output cfn_name description v =
     \<lparr>out_title = cfn_name @ ''Arn'',
      out_Description = description,
      out_Value = v,
      out_Export = Export (Sub (''${AWS::StackName}-'' @ cfn_name @ ''Arn''))\<rparr>"

definition create_instance_profile :: "'j config \<Rightarrow> string \<Rightarrow> 'j model \<Rightarrow> bool \<Rightarrow> error + 'j config" where
  "create_instance_profile c RoleName model named =
     (let cfn_name = scrub_name (RoleName @ ''InstanceProfile'');
          kw_args = instance_profile_kw_args RoleName model named
      in case add_resource c (InstanceProfile cfn_name kw_args) of
           Inl e \<Rightarrow> Inl e
         | Inr c' \<Rightarrow>
             if outputs_enabled c'
             then add_output c'
                    [arn_output cfn_name (''Instance profile for Role '' @ RoleName @ '' ARN'')
                       (Ref cfn_name)]
             else Inr c')"

text \<open>
  \<^verbatim>\<open>add_role\<close> builds \<^verbatim>\<open>kw_args\<close> first: the trust document of \<^verbatim>\<open>model['trusts']\<close> (a
  \<^verbatim>\<open>KeyError\<close> when the model has no trusts), then the managed policies. Both may raise,
  and both are evaluated before the template is touched.
\<close>

definition role_kw_args :: "'j config \<Rightarrow> string \<Rightarrow> 'j model \<Rightarrow> bool \<Rightarrow> error + role_args" where
  "role_kw_args c RoleName model named =
     (case model_trusts model of
        None \<Rightarrow> Inl (KeyError ''trusts'')
      | Some trusts \<Rightarrow>
          (case build_role_trust c trusts of
             Inl e \<Rightarrow> Inl e
           | Inr trust_document \<Rightarrow>
               (case (case model_managed_policies model of
                        None \<Rightarrow> Inr []
                      | Some mps \<Rightarrow> parse_managed_policies c mps RoleName) of
                  Inl e \<Rightarrow> Inl e
                | Inr arns \<Rightarrow>
                    Inr \<lparr>role_Path = ''/'',
                         role_AssumeRolePolicyDocument = trust_document,
                         role_ManagedPolicyArns = arns,
                         role_Policies = [],
                         role_RoleName = (if named then Some RoleName else None),
                         role_DeletionPolicy = deletion_policy model\<rparr>)))"

definition add_role :: "'j config \<Rightarrow> string \<Rightarrow> 'j model \<Rightarrow> bool \<Rightarrow> error + 'j config" where
  "add_role c RoleName model named =
     (let cfn_name = scrub_name (RoleName @ ''Role'')
      in case role_kw_args c RoleName model named of
           Inl e \<Rightarrow> Inl e
         | Inr kw_args \<Rightarrow>
             (case add_resource c (Role cfn_name kw_args) of
                Inl e \<Rightarrow> Inl e
              | Inr c' \<Rightarrow>
                  if outputs_enabled c'
                  then add_output c'
                         [arn_output cfn_name (''Role '' @ RoleName @ '' ARN'') (GetAtt cfn_name ''Arn'')]
                  else Inr c'))"

definition group_kw_args :: "'j config \<Rightarrow> string \<Rightarrow> 'j model \<Rightarrow> bool \<Rightarrow> error + group_args" where
  "group_kw_args c GroupName model named =
     (case (case model_managed_policies model of
              None \<Rightarrow> Inr []
            | Some mps \<Rightarrow> parse_managed_policies c mps GroupName) of
        Inl e \<Rightarrow> Inl e
      | Inr arns \<Rightarrow>
          Inr \<lparr>group_Path = ''/'',
               group_ManagedPolicyArns = arns,
               group_Policies = [],
               group_GroupName = (if named then Some GroupName else None),
               group_DeletionPolicy = deletion_policy model\<rparr>)"

text \<open>
  \<^verbatim>\<open>add_group\<close> registers the group under \<^verbatim>\<open>scrub_name(cfn_name)\<close>, the name scrubbed a
  second time, and names its output with \<^verbatim>\<open>cfn_name\<close>.
\<close>

definition add_group :: "'j config \<Rightarrow> string \<Rightarrow> 'j model \<Rightarrow> bool \<Rightarrow> error + 'j config" where
  "add_group c GroupName model named =
     (let cfn_name = scrub_name (GroupName @ ''Group'')
      in case group_kw_args c GroupName model named of
           Inl e \<Rightarrow> Inl e
         | Inr kw_args \<Rightarrow>
             (case add_resource c (Group (scrub_name cfn_name) kw_args) of
                Inl e \<Rightarrow> Inl e
              | Inr c' \<Rightarrow>
                  if outputs_enabled c'
                  then add_output c'
                         [arn_output cfn_name (''Group '' @ GroupName @ '' ARN'') (GetAtt cfn_name ''Arn'')]
                  else Inr c'))"

definition user_kw_args :: "'j config \<Rightarrow> string \<Rightarrow> 'j model \<Rightarrow> bool \<Rightarrow> error + user_args" where
  "user_kw_args c UserName model named =
     (case (case model_managed_policies model of
              None \<Rightarrow> Inr []
            | Some mps \<Rightarrow> parse_managed_policies c mps UserName) of
        Inl e \<Rightarrow> Inl e
      | Inr arns \<Rightarrow>
          Inr \<lparr>user_Path = ''/'',
               user_Groups = (case model_groups model of None \<Rightarrow> [] | Some gs \<Rightarrow> parse_imports c gs),
               user_ManagedPolicyArns = arns,
               user_Policies = [],
               user_UserName = (if named then Some UserName else None),
               user_LoginProfile =
                 (case model_password model of
                    None \<Rightarrow> None
                  | Some password \<Rightarrow> Some (LoginProfile password True)),
               user_DeletionPolicy = deletion_policy model\<rparr>)"

definition add_user :: "'j config \<Rightarrow> string \<Rightarrow> 'j model \<Rightarrow> bool \<Rightarrow> error + 'j config" where
  "add_user c UserName model named =
     (let cfn_name = scrub_name (UserName @ ''User'')
      in case user_kw_args c UserName model named of
           Inl e \<Rightarrow> Inl e
         | Inr kw_args \<Rightarrow>
             (case add_resource c (User cfn_name kw_args) of
                Inl e \<Rightarrow> Inl e
              | Inr c' \<Rightarrow>
                  if outputs_enabled c'
                  then add_output c'
                         [arn_output cfn_name (''User '' @ UserName @ '' ARN'') (GetAtt cfn_name ''Arn'')]
                  else Inr c'))"

text \<open>
  What the five assemblers have in common once \<^verbatim>\<open>kw_args\<close> is built and the library has
  refused nothing: the resource joins the resources of the template of the current
  account, its output joins the outputs of that template when the flag is \<^verbatim>\<open>enabled\<close>,
  and nothing else of \<^verbatim>\<open>c\<close> changes.
\<close>

definition registered :: "'j config \<Rightarrow> 'j resource \<Rightarrow> cfn_output \<Rightarrow> 'j config \<Rightarrow> bool" where
  "registered c r out c' =
     (\<exists>t. template c (current_account c) = Some t \<and>
          resource_refused r = None \<and>
          resource_title r \<notin> set (map resource_title (resources t)) \<and>
          (outputs_enabled c \<longrightarrow>
             title_refused (out_title out) = None
             \<and> out_title out \<notin> set (map out_title (outputs t))) \<and>
          c' = c\<lparr>template := (template c)(current_account c \<mapsto>
                 t\<lparr>resources := resources t @ [r],
                   outputs := outputs t @ (if outputs_enabled c then [out] else [])\<rparr>)\<rparr>)"

section \<open>The fan-out over entities and accounts\<close>

text \<open>
  The script installs this section when the configuration has no \<^verbatim>\<open>global\<close> key; the
  field \<open>cfg_global\<close> is the section after that step.
\<close>

definition default_global_section :: global_section where
  "default_global_section =
     \<lparr>names_policies = False, names_roles = True, names_users = True, names_groups = True,
      template_outputs = ''enabled''\<rparr>"

definition account_context :: "'j model \<Rightarrow> string list" where
  \<comment> \<open>\<^verbatim>\<open>context = ["all"]\<close>, replaced by \<^verbatim>\<open>in_accounts\<close> when the model has the key.\<close>
  "account_context model =
     (case model_in_accounts model of None \<Rightarrow> [''all''] | Some accounts \<Rightarrow> accounts)"

text \<open>
  \<^verbatim>\<open>policy_document_from_jinja\<close> reads a file, renders it with Jinja and parses the result
  as JSON. The three steps are outside this embedding: the function is the parameter
  \<open>jinja\<close>, which answers with the parsed value (a dictionary, a string or another value)
  or with the \<^verbatim>\<open>ValueError\<close> the source raises. The body of the policy loop for one
  account:
  \<^verbatim>\<open>
  c.current_account = account
  policy_document = ""
  if "policy_file" in c.config["policies"][policy_name]:
      policy_document = policy_document_from_jinja(c, policy_name, ...)
  if "assume" in c.config["policies"][policy_name]:
      policy_document = build_assume_role_policy_document(
          c, c.search_accounts(...["assume"]["accounts"]), ...["assume"]["roles"])
  add_managed_policy(c, policy_name, policy_document, ..., c.config["global"]["names"]["policies"])
  \<close>
\<close>

definition policy_in_account ::
  "('j config \<Rightarrow> string \<Rightarrow> 'j model \<Rightarrow> error + 'j policy_document) \<Rightarrow> string \<Rightarrow> 'j model
     \<Rightarrow> 'j config \<Rightarrow> string \<Rightarrow> error + 'j config" where
  "policy_in_account jinja policy_name model c0 account =
     (let c = c0\<lparr>current_account := account\<rparr>
      in case (case model_policy_file model of
                 None \<Rightarrow> Inr (DocText [])
               | Some _ \<Rightarrow> jinja c policy_name model) of
           Inl e \<Rightarrow> Inl e
         | Inr rendered \<Rightarrow>
             (case (case model_assume model of
                      None \<Rightarrow> Inr rendered
                    | Some a \<Rightarrow>
                        (case build_assume_role_policy_document c
                                (search_accounts c (assume_accounts a)) (assume_roles a) of
                           Inl e \<Rightarrow> Inl e
                         | Inr p \<Rightarrow> Inr (DocPolicy p))) of
                Inl e \<Rightarrow> Inl e
              | Inr policy_document \<Rightarrow>
                  add_managed_policy c policy_name policy_document model
                    (names_policies (cfg_global (config c)))))"

text \<open>
  The body of the role loop for one account:
  \<^verbatim>\<open>
  c.current_account = account
  add_role(c, role_name, c.config["roles"][role_name], c.config["global"]["names"]["roles"])
  if "ec2.amazonaws.com" in c.config["roles"][role_name]["trusts"]:
      create_instance_profile(c, role_name, ..., c.config["global"]["names"]["roles"])
  \<close>
\<close>

definition role_in_account :: "string \<Rightarrow> 'j model \<Rightarrow> 'j config \<Rightarrow> string \<Rightarrow> error + 'j config" where
  "role_in_account role_name model c0 account =
     (let c = c0\<lparr>current_account := account\<rparr>
      in case add_role c role_name model (names_roles (cfg_global (config c))) of
           Inl e \<Rightarrow> Inl e
         | Inr c' \<Rightarrow>
             (case model_trusts model of
                None \<Rightarrow> Inl (KeyError ''trusts'')
              | Some trusts \<Rightarrow>
                  if ''ec2.amazonaws.com'' \<in> set trusts
                  then create_instance_profile c' role_name model (names_roles (cfg_global (config c')))
                  else Inr c'))"

definition group_in_account :: "string \<Rightarrow> 'j model \<Rightarrow> 'j config \<Rightarrow> string \<Rightarrow> error + 'j config" where
  "group_in_account group_name model c0 account =
     (let c = c0\<lparr>current_account := account\<rparr>
      in add_group c group_name model (names_groups (cfg_global (config c))))"

definition user_in_account :: "string \<Rightarrow> 'j model \<Rightarrow> 'j config \<Rightarrow> string \<Rightarrow> error + 'j config" where
  "user_in_account user_name model c0 account =
     (let c = c0\<lparr>current_account := account\<rparr>
      in add_user c user_name model (names_users (cfg_global (config c))))"

text \<open>
  \<^verbatim>\<open>for account in c.search_accounts(context): ...\<close> and the loop over the entities of one
  section of the configuration, a dictionary read in its order. The first exception ends
  the run.
\<close>

fun for_accounts ::
  "('j config \<Rightarrow> string \<Rightarrow> error + 'j config) \<Rightarrow> 'j config \<Rightarrow> string list \<Rightarrow> error + 'j config" where
  "for_accounts body c [] = Inr c"
| "for_accounts body c (account # accounts) =
     (case body c account of
        Inl e \<Rightarrow> Inl e
      | Inr c' \<Rightarrow> for_accounts body c' accounts)"

fun for_entities ::
  "(string \<Rightarrow> 'j model \<Rightarrow> 'j config \<Rightarrow> string \<Rightarrow> error + 'j config) \<Rightarrow> 'j config
     \<Rightarrow> (string \<times> 'j model) list \<Rightarrow> error + 'j config" where
  "for_entities body c [] = Inr c"
| "for_entities body c ((name, model) # entities) =
     (case for_accounts (body name model) c (search_accounts c (account_context model)) of
        Inl e \<Rightarrow> Inl e
      | Inr c' \<Rightarrow> for_entities body c' entities)"

definition for_section ::
  "(string \<Rightarrow> 'j model \<Rightarrow> 'j config \<Rightarrow> string \<Rightarrow> error + 'j config) \<Rightarrow> 'j config
     \<Rightarrow> (string \<times> 'j model) list option \<Rightarrow> error + 'j config" where
  \<comment> \<open>\<^verbatim>\<open>if "roles" in c.config: for role_name in c.config["roles"]: ...\<close>\<close>
  "for_section body c section_entities =
     (case section_entities of None \<Rightarrow> Inr c | Some entities \<Rightarrow> for_entities body c entities)"

definition build_templates ::
  "('j config \<Rightarrow> string \<Rightarrow> 'j model \<Rightarrow> error + 'j policy_document) \<Rightarrow> 'j config
     \<Rightarrow> error + 'j config" where
  \<comment> \<open>The script behind the functions: policies, roles, groups, users, in this order.\<close>
  "build_templates jinja c =
     (case for_section (policy_in_account jinja) c (cfg_policies (config c)) of
        Inl e \<Rightarrow> Inl e
      | Inr c1 \<Rightarrow>
          (case for_section role_in_account c1 (cfg_roles (config c1)) of
             Inl e \<Rightarrow> Inl e
           | Inr c2 \<Rightarrow>
               (case for_section group_in_account c2 (cfg_groups (config c2)) of
                  Inl e \<Rightarrow> Inl e
                | Inr c3 \<Rightarrow> for_section user_in_account c3 (cfg_users (config c3)))))"

section \<open>A configuration helper after the specification, and the scenarios\<close>

text \<open>
  Modelled from the spec: \<^verbatim>\<open>search_accounts\<close> of \<^verbatim>\<open>lib/config_helper.py\<close>, which is not
  among the sources. After section 4.2 of the specification: the context \<^verbatim>\<open>["all"]\<close> is
  every configured account in the order of the configuration; of another context the
  entries that are configured friendly names are kept and the others dropped. It serves
  the concrete configurations of the scenarios only.
\<close>

definition spec_search_accounts :: "(string \<times> string) list \<Rightarrow> string list \<Rightarrow> string list" where
  "spec_search_accounts accounts context =
     (if context = [''all''] then map fst accounts
      else filter (\<lambda>name. name \<in> set (map fst accounts)) context)"

text \<open>
  Modelled from the spec: \<^verbatim>\<open>map_account\<close> of \<^verbatim>\<open>lib/config_helper.py\<close>, which is not among
  the sources. After section 4.2 of the specification: the numeric identifier of a
  friendly name, and the failure \<open>UnknownAccountError\<close> when there is none. It serves the
  concrete configurations of the scenarios only.
\<close>

definition spec_map_account :: "(string \<times> string) list \<Rightarrow> string \<Rightarrow> error + string" where
  "spec_map_account accounts friendly_name =
     (case map_of accounts friendly_name of
        None \<Rightarrow> Inl (UnknownAccountError friendly_name)
      | Some account_id \<Rightarrow> Inr account_id)"

definition empty_model :: "unit model" where
  "empty_model =
     \<lparr>model_policy_file = None, model_template_vars = None, model_assume = None,
      model_in_accounts = None, model_description = None, model_groups = None,
      model_users = None, model_roles = None, model_trusts = None,
      model_managed_policies = None, model_password = None, model_retain_on_delete = None\<rparr>"

definition empty_template :: "unit template_doc" where
  "empty_template = \<lparr>resources = [], outputs = []\<rparr>"

text \<open>
  The configuration of the scenarios of the specification: the account \<^verbatim>\<open>prod\<close> with the
  identifier \<^verbatim>\<open>111111111111\<close>, no SAML provider, the naming flags of the default section
  (\<^verbatim>\<open>global.names.roles\<close> is true), an empty template for the account, and no local
  managed policy. \<open>scenario\<close> takes the output flag, the policies and the roles.
\<close>

definition scenario ::
  "string \<Rightarrow> (string \<times> unit model) list option \<Rightarrow> (string \<times> unit model) list option \<Rightarrow> unit config" where
  "scenario flag policy_section role_section =
     \<lparr>config =
        \<lparr>cfg_global = default_global_section\<lparr>template_outputs := flag\<rparr>,
         cfg_policies = policy_section, cfg_roles = role_section,
         cfg_groups = None, cfg_users = None\<rparr>,
      account_map_ids = [''prod'' \<mapsto> ''111111111111''],
      parent_account_id = ''111111111111'',
      saml_provider = None,
      current_account = [],
      template = [''prod'' \<mapsto> empty_template],
      search_accounts = spec_search_accounts [(''prod'', ''111111111111'')],
      map_account = spec_map_account [(''prod'', ''111111111111'')],
      is_local_managed_policy = (\<lambda>_. False),
      is_managed_policy_in_account = (\<lambda>_ _. False)\<rparr>"

definition no_jinja :: "unit config \<Rightarrow> string \<Rightarrow> unit model \<Rightarrow> error + unit policy_document" where
  \<comment> \<open>A renderer for the scenarios: every policy file renders to a dictionary, the one of
      the content \<open>()\<close>.\<close>
  "no_jinja c policy_name model = Inr (DocJson ())"

section \<open>The identifier scrubber\<close>

lemma ascii_ranges:
  "(let n = (of_char c :: nat)
    in (48 \<le> n \<and> n \<le> 57) \<or> (65 \<le> n \<and> n \<le> 90) \<or> (97 \<le> n \<and> n \<le> 122)) \<longleftrightarrow> in_AZaz09 c"
  by (cases c) (simp add: in_AZaz09_def)

lemma underscore_code: "(of_char c :: nat) = 95 \<longleftrightarrow> c = CHR ''_''"
  by (cases c) simp

lemma in_AZaz09_kept: "in_AZaz09 c \<Longrightarrow> \<not> scrubbed_char c"
  by (auto simp: in_AZaz09_def scrubbed_char_def word_char_def)

lemma ascii_kept_iff:
  assumes "of_char c < (128 :: nat)"
  shows "\<not> scrubbed_char c \<longleftrightarrow> in_AZaz09 c"
proof
  assume "\<not> scrubbed_char c"
  then have w: "word_char c" and u: "(of_char c :: nat) \<noteq> 95"
    by (simp_all add: scrubbed_char_def underscore_code)
  from w u assms
  have "(let n = (of_char c :: nat)
    in (48 \<le> n \<and> n \<le> 57) \<or> (65 \<le> n \<and> n \<le> 90) \<or> (97 \<le> n \<and> n \<le> 122))"
    unfolding word_char_def Let_def by arith
  then show "in_AZaz09 c" by (simp only: ascii_ranges)
next
  assume "in_AZaz09 c"
  then show "\<not> scrubbed_char c" by (rule in_AZaz09_kept)
qed

lemma scrub_name_filter: "scrub_name x = filter (\<lambda>c. \<not> scrubbed_char c) x"
proof (induction x rule: scrub_name.induct)
  case 1
  show ?case by simp
next
  case (2 c cs)
  show ?case
  proof (cases "scrubbed_char c")
    case True
    have "filter (\<lambda>c. \<not> scrubbed_char c) (takeWhile scrubbed_char cs) = []"
      by (simp add: filter_empty_conv) (meson set_takeWhileD)
    then have "filter (\<lambda>c. \<not> scrubbed_char c) (dropWhile scrubbed_char cs)
        = filter (\<lambda>c. \<not> scrubbed_char c) cs"
      by (metis append_Nil filter_append takeWhile_dropWhile_id)
    with True 2 show ?thesis by simp
  next
    case False
    with 2 show ?thesis by simp
  qed
qed

lemma scrub_name_idempotent: "scrub_name (scrub_name x) = scrub_name x"
  by (simp add: scrub_name_filter)

lemma scrub_name_ascii:
  "\<forall>c\<in>set x. of_char c < (128 :: nat) \<Longrightarrow> scrub_name x = filter in_AZaz09 x"
  unfolding scrub_name_filter by (rule filter_cong) (simp_all add: ascii_kept_iff)

lemma scrub_name_no_underscore: "CHR ''_'' \<notin> set (scrub_name x)"
  by (simp add: scrub_name_filter scrubbed_char_def)

text \<open>
  C8. \<^verbatim>\<open>scrub_name\<close> is a total function of its argument alone, it is idempotent
  (\<open>scrub_name_idempotent\<close>), and of an ASCII string it keeps exactly the characters of
  \<^verbatim>\<open>[A-Za-z0-9]\<close> (\<open>scrub_name_ascii\<close>). It does not remove every character outside that
  class: the letter e with acute accent, code point 233, is a word character of the
  engine, and the name \<^verbatim>\<open>caf\<close> followed by that letter is returned as it is.
\<close>

theorem scrub_name_keeps_latin_letter:
  "\<not> in_AZaz09 (CHR 0xE9)
   \<and> scrub_name [CHR ''c'', CHR ''a'', CHR ''f'', CHR 0xE9] = [CHR ''c'', CHR ''a'', CHR ''f'', CHR 0xE9]"
  by (simp add: in_AZaz09_def scrubbed_char_def word_char_def)

section \<open>What an assembler call does to the configuration\<close>

lemma add_resource_Inr:
  "add_resource c r = Inr c' \<longleftrightarrow>
     (\<exists>t. template c (current_account c) = Some t \<and>
          resource_refused r = None \<and>
          resource_title r \<notin> set (map resource_title (resources t)) \<and>
          c' = c\<lparr>template := (template c)(current_account c \<mapsto> t\<lparr>resources := resources t @ [r]\<rparr>)\<rparr>)"
  by (auto simp: add_resource_def split: option.splits)

lemma add_output_Inr:
  "add_output c [out] = Inr c' \<longleftrightarrow>
     (\<exists>t. template c (current_account c) = Some t \<and>
          title_refused (out_title out) = None \<and>
          out_title out \<notin> set (map out_title (outputs t)) \<and>
          c' = c\<lparr>template := (template c)(current_account c \<mapsto> t\<lparr>outputs := outputs t @ [out]\<rparr>)\<rparr>)"
  by (auto simp: add_output_def split: option.splits)

lemma register_steps:
  "(case add_resource c r of Inl e \<Rightarrow> Inl e
    | Inr c1 \<Rightarrow> if outputs_enabled c1 then add_output c1 [out] else Inr c1) = Inr c'
   \<longleftrightarrow> registered c r out c'"
proof (cases "add_resource c r")
  case (Inl e)
  then have "\<not> registered c r out c'"
    by (auto simp: registered_def add_resource_def split: option.splits if_splits)
  with Inl show ?thesis by simp
next
  case (Inr c1)
  then obtain t where t: "template c (current_account c) = Some t"
    and ok: "resource_refused r = None"
      "resource_title r \<notin> set (map resource_title (resources t))"
    and c1: "c1 = c\<lparr>template := (template c)(current_account c \<mapsto> t\<lparr>resources := resources t @ [r]\<rparr>)\<rparr>"
    unfolding add_resource_Inr by blast
  have en: "outputs_enabled c1 = outputs_enabled c"
    by (simp add: c1 outputs_enabled_def)
  show ?thesis
  proof (cases "outputs_enabled c")
    case False
    with Inr en t ok c1 show ?thesis
      by (auto simp: registered_def)
  next
    case True
    have "add_output c1 [out] = Inr c' \<longleftrightarrow> registered c r out c'"
      unfolding add_output_Inr registered_def using True t ok
      by (auto simp: c1)
    with Inr en True show ?thesis by simp
  qed
qed

lemma add_managed_policy_Inr:
  "add_managed_policy c n d m named = Inr c' \<longleftrightarrow>
     registered c (ManagedPolicy (scrub_name n) (managed_policy_kw_args c n d m named))
       (managed_policy_output (scrub_name n) (mp_Description (managed_policy_kw_args c n d m named))) c'"
  by (simp add: add_managed_policy_def Let_def register_steps)

lemma create_instance_profile_Inr:
  "create_instance_profile c n m named = Inr c' \<longleftrightarrow>
     registered c (InstanceProfile (scrub_name (n @ ''InstanceProfile'')) (instance_profile_kw_args n m named))
       (arn_output (scrub_name (n @ ''InstanceProfile'')) (''Instance profile for Role '' @ n @ '' ARN'')
          (Ref (scrub_name (n @ ''InstanceProfile'')))) c'"
  by (simp add: create_instance_profile_def Let_def register_steps)

lemma add_role_Inr:
  "add_role c n m named = Inr c' \<longleftrightarrow>
     (\<exists>kw. role_kw_args c n m named = Inr kw \<and>
        registered c (Role (scrub_name (n @ ''Role'')) kw)
          (arn_output (scrub_name (n @ ''Role'')) (''Role '' @ n @ '' ARN'')
             (GetAtt (scrub_name (n @ ''Role'')) ''Arn'')) c')"
  by (cases "role_kw_args c n m named") (simp_all add: add_role_def Let_def register_steps)

lemma add_group_Inr:
  "add_group c n m named = Inr c' \<longleftrightarrow>
     (\<exists>kw. group_kw_args c n m named = Inr kw \<and>
        registered c (Group (scrub_name (scrub_name (n @ ''Group''))) kw)
          (arn_output (scrub_name (n @ ''Group'')) (''Group '' @ n @ '' ARN'')
             (GetAtt (scrub_name (n @ ''Group'')) ''Arn'')) c')"
  by (cases "group_kw_args c n m named") (simp_all add: add_group_def Let_def register_steps)

lemma add_user_Inr:
  "add_user c n m named = Inr c' \<longleftrightarrow>
     (\<exists>kw. user_kw_args c n m named = Inr kw \<and>
        registered c (User (scrub_name (n @ ''User'')) kw)
          (arn_output (scrub_name (n @ ''User'')) (''User '' @ n @ '' ARN'')
             (GetAtt (scrub_name (n @ ''User'')) ''Arn'')) c')"
  by (cases "user_kw_args c n m named") (simp_all add: add_user_def Let_def register_steps)

section \<open>The assume shorthand: one statement for each pair\<close>

lemma assume_statements_of_role_resolved:
  "\<forall>a\<in>set accounts. map_account c a = Inr (ids a) \<Longrightarrow>
   assume_statements_of_role c accounts role
     = Inr (map (\<lambda>a. build_sts_statement (ids a) role) accounts)"
  by (induction accounts) simp_all

lemma assume_statements_resolved:
  "\<forall>a\<in>set accounts. map_account c a = Inr (ids a) \<Longrightarrow>
   assume_statements c accounts roles
     = Inr (concat (map (\<lambda>role. map (\<lambda>a. build_sts_statement (ids a) role) accounts) roles))"
proof (induction roles)
  case Nil
  show ?case by simp
next
  case (Cons role roles)
  then show ?case
    using assume_statements_of_role_resolved [of accounts c ids role] by simp
qed

lemma length_concat_const:
  "length (concat (map (\<lambda>r. map (f r) xs) rs)) = length xs * length rs"
  by (induction rs) simp_all

text \<open>
  C4. When \<^verbatim>\<open>map_account\<close> resolves every account of the list (to \<open>ids account\<close>), the
  document of \<^verbatim>\<open>build_assume_role_policy_document\<close> has one statement for each pair of a
  role and an account, role by role: effect \<^verbatim>\<open>Allow\<close>, action \<^verbatim>\<open>sts:AssumeRole\<close> and the
  resource \<^verbatim>\<open>arn:aws:iam::<id>:role/<role>\<close>; their number is the product of the two
  lengths. In particular the account \<^verbatim>\<open>prod\<close> with the identifier \<^verbatim>\<open>111111111111\<close> and the
  role \<^verbatim>\<open>Admin\<close> give the one statement on \<^verbatim>\<open>arn:aws:iam::111111111111:role/Admin\<close>.
\<close>

theorem assume_document_cross_product:
  "((\<forall>account\<in>set accounts. map_account c account = Inr (ids account)) \<longrightarrow>
      (\<exists>doc. build_assume_role_policy_document c accounts roles = Inr doc
         \<and> Statement doc =
             concat (map (\<lambda>role. map (\<lambda>account.
                \<lparr>Effect = ''Allow'', Principal = None, Action = ''sts:AssumeRole'',
                 Resource = Some (''arn:aws:iam::'' @ ids account @ '':role/'' @ role),
                 Condition = None\<rparr>) accounts) roles)
         \<and> length (Statement doc) = length accounts * length roles))
   \<and> (map_account c ''prod'' = Inr ''111111111111'' \<longrightarrow>
        build_assume_role_policy_document c [''prod''] [''Admin'']
          = Inr \<lparr>Version = ''2012-10-17'',
                 Statement = [\<lparr>Effect = ''Allow'', Principal = None, Action = ''sts:AssumeRole'',
                               Resource = Some ''arn:aws:iam::111111111111:role/Admin'',
                               Condition = None\<rparr>]\<rparr>)"
proof (intro conjI impI)
  assume r: "\<forall>account\<in>set accounts. map_account c account = Inr (ids account)"
  let ?sts = "concat (map (\<lambda>role. map (\<lambda>a. build_sts_statement (ids a) role) accounts) roles)"
  have "build_assume_role_policy_document c accounts roles
          = Inr \<lparr>Version = ''2012-10-17'', Statement = ?sts\<rparr>"
    by (simp add: build_assume_role_policy_document_def assume_statements_resolved [OF r])
  moreover have "length ?sts = length accounts * length roles"
    by (rule length_concat_const)
  ultimately show "\<exists>doc. build_assume_role_policy_document c accounts roles = Inr doc
         \<and> Statement doc =
             concat (map (\<lambda>role. map (\<lambda>account.
                \<lparr>Effect = ''Allow'', Principal = None, Action = ''sts:AssumeRole'',
                 Resource = Some (''arn:aws:iam::'' @ ids account @ '':role/'' @ role),
                 Condition = None\<rparr>) accounts) roles)
         \<and> length (Statement doc) = length accounts * length roles"
    by (simp add: build_sts_statement_def)
next
  assume "map_account c ''prod'' = Inr ''111111111111''"
  then show "build_assume_role_policy_document c [''prod''] [''Admin'']
          = Inr \<lparr>Version = ''2012-10-17'',
                 Statement = [\<lparr>Effect = ''Allow'', Principal = None, Action = ''sts:AssumeRole'',
                               Resource = Some ''arn:aws:iam::111111111111:role/Admin'',
                               Condition = None\<rparr>]\<rparr>"
    by (simp add: build_assume_role_policy_document_def build_sts_statement_def)
qed


theorem assume_document_cross_product_witness:
  "(\<exists>doc. build_assume_role_policy_document (scenario ''enabled'' None None)
            [''prod''] [''Admin'', ''Audit''] = Inr doc
          \<and> map Resource (Statement doc)
              = [Some ''arn:aws:iam::111111111111:role/Admin'',
                 Some ''arn:aws:iam::111111111111:role/Audit'']
          \<and> length (Statement doc) = 2)
   \<and> build_assume_role_policy_document (scenario ''enabled'' None None) [''prod''] [''Admin'']
       = Inr \<lparr>Version = ''2012-10-17'',
              Statement = [\<lparr>Effect = ''Allow'', Principal = None, Action = ''sts:AssumeRole'',
                            Resource = Some ''arn:aws:iam::111111111111:role/Admin'',
                            Condition = None\<rparr>]\<rparr>"
proof -
  let ?c = "scenario ''enabled'' None None"
  have prod: "map_account ?c ''prod'' = Inr ''111111111111''"
    by (simp add: scenario_def spec_map_account_def)
  then have all: "\<forall>account\<in>set [''prod'']. map_account ?c account = Inr ((\<lambda>_. ''111111111111'') account)"
    by simp
  from assume_document_cross_product
         [where c = ?c and accounts = "[''prod'']" and roles = "[''Admin'', ''Audit'']"
            and ids = "\<lambda>_. ''111111111111''"]
       all prod
  show ?thesis by auto
qed

section \<open>The trust document: its statements and their order\<close>

lemma trust_principal_sts:
  "trust_principal c t = Inr (StsPrincipal p) \<Longrightarrow>
     (account_specifier c t \<and> (\<exists>x. p = AWS x)) \<or> (service_specifier c t \<and> (\<exists>x. p = Service x))"
  by (auto simp: trust_principal_def account_specifier_def service_specifier_def
      split: list.splits option.splits if_splits)

lemma trust_principal_saml:
  "trust_principal c t = Inr (SamlPrincipal p) \<Longrightarrow> saml_specifier c t \<and> (\<exists>x. p = Federated x)"
  by (auto simp: trust_principal_def saml_specifier_def
      split: list.splits option.splits if_splits)

lemma specifier_kinds_exclusive:
  "\<not> (account_specifier c t \<and> saml_specifier c t)"
  "\<not> (account_specifier c t \<and> service_specifier c t)"
  "\<not> (saml_specifier c t \<and> service_specifier c t)"
  by (auto simp: account_specifier_def saml_specifier_def service_specifier_def)

lemma trust_principals_shape:
  "trust_principals c ts sts saml = Inr (sts', saml') \<Longrightarrow>
   \<exists>s1 s2. sts' = sts @ s1 \<and> saml' = saml @ s2
     \<and> length s1 = sts_count c ts
     \<and> length s2 = length (filter (saml_specifier c) ts)
     \<and> (\<forall>p\<in>set s1. \<exists>x. p = AWS x \<or> p = Service x)
     \<and> (\<forall>p\<in>set s2. \<exists>x. p = Federated x)"
proof (induction ts arbitrary: sts saml)
  case Nil
  then show ?case by (simp add: sts_count_def)
next
  case (Cons t ts)
  from Cons.prems obtain e where e: "trust_principal c t = Inr e"
    by (cases "trust_principal c t") auto
  show ?case
  proof (cases e)
    case (StsPrincipal p)
    with e Cons.prems have "trust_principals c ts (sts @ [p]) saml = Inr (sts', saml')" by simp
    from Cons.IH [OF this] obtain s1 s2 where
      r: "sts' = (sts @ [p]) @ s1" "saml' = saml @ s2" "length s1 = sts_count c ts"
         "length s2 = length (filter (saml_specifier c) ts)"
         "\<forall>p\<in>set s1. \<exists>x. p = AWS x \<or> p = Service x" "\<forall>p\<in>set s2. \<exists>x. p = Federated x"
      by blast
    from trust_principal_sts [OF e [unfolded StsPrincipal]] specifier_kinds_exclusive [of c t]
    have k: "sts_count c (t # ts) = Suc (sts_count c ts)" "\<not> saml_specifier c t"
         "\<exists>x. p = AWS x \<or> p = Service x"
      by (auto simp: sts_count_def)
    show ?thesis
      by (rule exI [of _ "p # s1"], rule exI [of _ s2]) (use r k in simp)
  next
    case (SamlPrincipal p)
    with e Cons.prems have "trust_principals c ts sts (saml @ [p]) = Inr (sts', saml')" by simp
    from Cons.IH [OF this] obtain s1 s2 where
      r: "sts' = sts @ s1" "saml' = (saml @ [p]) @ s2" "length s1 = sts_count c ts"
         "length s2 = length (filter (saml_specifier c) ts)"
         "\<forall>p\<in>set s1. \<exists>x. p = AWS x \<or> p = Service x" "\<forall>p\<in>set s2. \<exists>x. p = Federated x"
      by blast
    from trust_principal_saml [OF e [unfolded SamlPrincipal]] specifier_kinds_exclusive [of c t]
    have k: "sts_count c (t # ts) = sts_count c ts" "saml_specifier c t" "\<exists>x. p = Federated x"
      by (auto simp: sts_count_def)
    show ?thesis
      by (rule exI [of _ s1], rule exI [of _ "p # s2"]) (use r k in simp)
  qed
qed

text \<open>
  C2. A document that \<^verbatim>\<open>build_role_trust\<close> returns has as many statements as the list has
  account, service and SAML specifiers together. The statements of the account and service
  specifiers come first, each with the action \<^verbatim>\<open>sts:AssumeRole\<close> and an \<^verbatim>\<open>AWS\<close> or
  \<^verbatim>\<open>Service\<close> principal; the statements of the SAML specifiers follow, each with the action
  \<^verbatim>\<open>sts:AssumeRoleWithSAML\<close>, a \<^verbatim>\<open>Federated\<close> principal and the fixed audience condition.
\<close>

theorem trust_statement_count_and_order:
  assumes "build_role_trust c trusts = Inr doc"
  shows "length (Statement doc)
           = length (filter (account_specifier c) trusts)
             + length (filter (service_specifier c) trusts)
             + length (filter (saml_specifier c) trusts)
         \<and> (\<forall>s\<in>set (take (length (filter (account_specifier c) trusts)
                               + length (filter (service_specifier c) trusts)) (Statement doc)).
               Effect s = ''Allow'' \<and> Action s = ''sts:AssumeRole''
               \<and> (\<exists>x. Principal s = Some (AWS x) \<or> Principal s = Some (Service x))
               \<and> Condition s = None)
         \<and> (\<forall>s\<in>set (drop (length (filter (account_specifier c) trusts)
                               + length (filter (service_specifier c) trusts)) (Statement doc)).
               Effect s = ''Allow'' \<and> Action s = ''sts:AssumeRoleWithSAML''
               \<and> (\<exists>x. Principal s = Some (Federated x))
               \<and> Condition s
                   = Some [(''StringEquals'', [(''SAML:aud'', ''https://signin.aws.amazon.com/saml'')])])"
proof -
  from assms obtain sts saml where
    tp: "trust_principals c trusts [] [] = Inr (sts, saml)" and
    doc: "doc = \<lparr>Version = ''2012-10-17'',
                 Statement = map sts_statement sts @ map saml_statement saml\<rparr>"
    by (auto simp: build_role_trust_def split: sum.splits prod.splits)
  from trust_principals_shape [OF tp] have
    n: "length sts = sts_count c trusts" and
    m: "length saml = length (filter (saml_specifier c) trusts)" and
    ps: "\<forall>p\<in>set sts. \<exists>x. p = AWS x \<or> p = Service x" and
    pf: "\<forall>p\<in>set saml. \<exists>x. p = Federated x"
    by auto
  have tk: "take (sts_count c trusts) (Statement doc) = map sts_statement sts"
    and dr: "drop (sts_count c trusts) (Statement doc) = map saml_statement saml"
    using n by (simp_all add: doc)
  have "length (Statement doc) = sts_count c trusts + length (filter (saml_specifier c) trusts)"
    using n m by (simp add: doc)
  moreover have "\<forall>s\<in>set (take (sts_count c trusts) (Statement doc)).
               Effect s = ''Allow'' \<and> Action s = ''sts:AssumeRole''
               \<and> (\<exists>x. Principal s = Some (AWS x) \<or> Principal s = Some (Service x))
               \<and> Condition s = None"
    unfolding tk using ps by (auto simp: sts_statement_def)
  moreover have "\<forall>s\<in>set (drop (sts_count c trusts) (Statement doc)).
               Effect s = ''Allow'' \<and> Action s = ''sts:AssumeRoleWithSAML''
               \<and> (\<exists>x. Principal s = Some (Federated x))
               \<and> Condition s
                   = Some [(''StringEquals'', [(''SAML:aud'', ''https://signin.aws.amazon.com/saml'')])]"
    unfolding dr using pf by (auto simp: saml_statement_def)
  ultimately show ?thesis
    unfolding sts_count_def by blast
qed

lemmas scenario_simps =
  scenario_def spec_search_accounts_def spec_map_account_def default_global_section_def
  empty_template_def empty_model_def

lemmas refusal_simps =
  resource_refused_def title_refused_def valid_title_def in_AZaz09_def
  managed_policy_kw_args_def managed_policy_output_def arn_output_def

lemmas eval_simps =
  scenario_simps scrubbed_char_def word_char_def line_feed_def Let_def

theorem trust_statement_count_and_order_witness:
  "build_role_trust ((scenario ''enabled'' None None)\<lparr>saml_provider := Some ''corp''\<rparr>)
       [''corp'', ''ec2.amazonaws.com'', ''prod'']
     = Inr \<lparr>Version = ''2012-10-17'',
            Statement =
              [sts_statement (Service ''ec2.amazonaws.com''),
               sts_statement (AWS ''arn:aws:iam::111111111111:root''),
               saml_statement (Federated ''arn:aws:iam::111111111111:saml-provider/corp'')]\<rparr>
   \<and> length (Statement \<lparr>Version = ''2012-10-17'',
            Statement =
              [sts_statement (Service ''ec2.amazonaws.com''),
               sts_statement (AWS ''arn:aws:iam::111111111111:root''),
               saml_statement (Federated ''arn:aws:iam::111111111111:saml-provider/corp'')]\<rparr>)
       = length (filter (account_specifier ((scenario ''enabled'' None None)\<lparr>saml_provider := Some ''corp''\<rparr>))
                   [''corp'', ''ec2.amazonaws.com'', ''prod''])
         + length (filter (service_specifier ((scenario ''enabled'' None None)\<lparr>saml_provider := Some ''corp''\<rparr>))
                   [''corp'', ''ec2.amazonaws.com'', ''prod''])
         + length (filter (saml_specifier ((scenario ''enabled'' None None)\<lparr>saml_provider := Some ''corp''\<rparr>))
                   [''corp'', ''ec2.amazonaws.com'', ''prod''])"
proof -
  let ?c = "(scenario ''enabled'' None None)\<lparr>saml_provider := Some ''corp''\<rparr>"
  have ev: "build_role_trust ?c [''corp'', ''ec2.amazonaws.com'', ''prod'']
     = Inr \<lparr>Version = ''2012-10-17'',
            Statement =
              [sts_statement (Service ''ec2.amazonaws.com''),
               sts_statement (AWS ''arn:aws:iam::111111111111:root''),
               saml_statement (Federated ''arn:aws:iam::111111111111:saml-provider/corp'')]\<rparr>"
    by (simp add: build_role_trust_def trust_principal_def dotted_name_def line_feed_def
        scenario_simps)
  from trust_statement_count_and_order [OF ev] ev show ?thesis by blast
qed

section \<open>The trust document: one specifier\<close>

lemma dotted_name_one_line:
  assumes "line_feed \<notin> set t"
  shows "dotted_name t \<longleftrightarrow> CHR ''.'' \<in> set t"
proof -
  from assms have all: "\<forall>ch\<in>set t. ch \<noteq> line_feed" by auto
  have tw: "takeWhile (\<lambda>ch. ch \<noteq> line_feed) t = t"
    using all by (simp add: takeWhile_eq_all_conv)
  have dw: "dropWhile (\<lambda>ch. ch \<noteq> line_feed) t = []"
    using all by (simp add: dropWhile_eq_Nil_conv)
  show ?thesis
    unfolding dotted_name_def Let_def tw dw by simp
qed

lemma trust_principal_cases:
  "(search_accounts c [t] = a # rest \<and> account_map_ids c a = Some i \<longrightarrow>
      trust_principal c t = Inr (StsPrincipal (AWS (''arn:aws:iam::'' @ i @ '':root''))))
   \<and> (search_accounts c [t] = [] \<and> saml_provider c = Some t \<longrightarrow>
        trust_principal c t
          = Inr (SamlPrincipal
                  (Federated (''arn:aws:iam::'' @ parent_account_id c @ '':saml-provider/'' @ t))))
   \<and> (search_accounts c [t] = [] \<and> saml_provider c \<noteq> Some t \<and> dotted_name t \<longrightarrow>
        trust_principal c t = Inr (StsPrincipal (Service t)))
   \<and> (search_accounts c [t] = [] \<and> saml_provider c \<noteq> Some t \<and> \<not> dotted_name t \<longrightarrow>
        trust_principal c t = Inl (unresolved_trust_error t))"
  by (auto simp: trust_principal_def)

lemma trust_principals_first_failure:
  "\<forall>u\<in>set pre. \<exists>p. trust_principal c u = Inr p \<Longrightarrow> trust_principal c t = Inl e \<Longrightarrow>
   trust_principals c (pre @ t # post) sts saml = Inl e"
proof (induction pre arbitrary: sts saml)
  case Nil
  then show ?case by simp
next
  case (Cons u pre)
  then obtain p where "trust_principal c u = Inr p" by auto
  with Cons show ?case by (cases p) simp_all
qed

lemma build_role_trust_first_failure:
  "\<forall>u\<in>set pre. \<exists>p. trust_principal c u = Inr p \<Longrightarrow> trust_principal c t = Inl e \<Longrightarrow>
   build_role_trust c (pre @ t # post) = Inl e"
  by (simp add: build_role_trust_def trust_principals_first_failure)

text \<open>
  C3. The order of the tests is the order of the claim (\<open>trust_principal_cases\<close>), the
  first specifier that passes none of them fails the call with the error that names it
  (\<open>build_role_trust_first_failure\<close>), and for a specifier of one line the third test is
  the presence of a dot (\<open>dotted_name_one_line\<close>). A specifier that has its dot in front of
  a line feed and text behind the line feed is not taken for a service, although it
  contains a dot: the specifier \<^verbatim>\<open>a.b\<close>, line feed, \<^verbatim>\<open>c\<close>, which is no account of the
  scenario and not its SAML provider, fails \<^verbatim>\<open>build_role_trust\<close> with the unresolved-trust
  error.
\<close>

theorem build_role_trust_dot_behind_line_feed:
  "CHR ''.'' \<in> set [CHR ''a'', CHR ''.'', CHR ''b'', CHR 0x0A, CHR ''c'']
   \<and> search_accounts (scenario ''enabled'' None None) [[CHR ''a'', CHR ''.'', CHR ''b'', CHR 0x0A, CHR ''c'']] = []
   \<and> build_role_trust (scenario ''enabled'' None None) [[CHR ''a'', CHR ''.'', CHR ''b'', CHR 0x0A, CHR ''c'']]
       = Inl (unresolved_trust_error [CHR ''a'', CHR ''.'', CHR ''b'', CHR 0x0A, CHR ''c''])"
  by (simp add: build_role_trust_def trust_principal_def dotted_name_def line_feed_def
      scenario_simps)

section \<open>Managed-policy references: one reference, and the list\<close>

lemma managed_policy_entry_cases:
  "(take 7 r = ''arn:aws'' \<longrightarrow> managed_policy_entry c r w = Inr (Str r))
   \<and> (take 7 r \<noteq> ''arn:aws'' \<and> take 7 r = ''import:'' \<longrightarrow>
        managed_policy_entry c r w = Inr (ImportValue (takeWhile (\<lambda>ch. ch \<noteq> line_feed) (drop 7 r))))
   \<and> (take 7 r = ''import:'' \<and> line_feed \<notin> set r \<longrightarrow>
        managed_policy_entry c r w = Inr (ImportValue (drop 7 r)))
   \<and> (take 7 r \<noteq> ''arn:aws'' \<and> take 7 r \<noteq> ''import:'' \<and> \<not> is_local_managed_policy c r \<longrightarrow>
        managed_policy_entry c r w = Inl (not_in_configuration_error w r))
   \<and> (take 7 r \<noteq> ''arn:aws'' \<and> take 7 r \<noteq> ''import:'' \<and> is_local_managed_policy c r
        \<and> map_account c (current_account c) = Inr account
        \<and> \<not> is_managed_policy_in_account c r account \<longrightarrow>
        managed_policy_entry c r w = Inl (not_in_account_error w r (current_account c)))
   \<and> (take 7 r \<noteq> ''arn:aws'' \<and> take 7 r \<noteq> ''import:'' \<and> is_local_managed_policy c r
        \<and> map_account c (current_account c) = Inr account
        \<and> is_managed_policy_in_account c r account \<longrightarrow>
        managed_policy_entry c r w = Inr (Ref (scrub_name r)))"
proof -
  have "line_feed \<notin> set r \<Longrightarrow> takeWhile (\<lambda>ch. ch \<noteq> line_feed) (drop 7 r) = drop 7 r"
    by (auto simp: takeWhile_eq_all_conv dest: in_set_dropD)
  then show ?thesis
    by (auto simp: managed_policy_entry_def arn_prefix_def import_prefix_def import_group_def)
qed

lemma parse_managed_policies_all:
  "parse_managed_policies c refs w = Inr vs \<longleftrightarrow>
     list_all2 (\<lambda>r v. managed_policy_entry c r w = Inr v) refs vs"
proof (induction refs arbitrary: vs)
  case Nil
  show ?case by auto
next
  case (Cons r refs)
  show ?case
  proof (cases "managed_policy_entry c r w")
    case (Inl e)
    then show ?thesis by (cases vs) simp_all
  next
    case (Inr v)
    show ?thesis
    proof (cases "parse_managed_policies c refs w")
      case (Inl e)
      with Inr Cons.IH show ?thesis by (cases vs) auto
    next
      case tail: (Inr tl)
      with Inr Cons.IH [of tl] Cons.IH show ?thesis by (cases vs) auto
    qed
  qed
qed

lemma parse_managed_policies_first_failure:
  "\<forall>u\<in>set pre. \<exists>v. managed_policy_entry c u w = Inr v \<Longrightarrow> managed_policy_entry c r w = Inl e \<Longrightarrow>
   parse_managed_policies c (pre @ r # post) w = Inl e"
  by (induction pre) auto

text \<open>
  C1. The tests come in the order of the claim and the check of existence precedes the
  check of the account (\<open>managed_policy_entry_cases\<close>); the list resolves when every
  reference does, and the first reference that fails gives the error of the call
  (\<open>parse_managed_policies_all\<close>, \<open>parse_managed_policies_first_failure\<close>). An import
  reference with a line feed does not become the import of the remainder behind the
  prefix: of \<^verbatim>\<open>import:a\<close>, line feed, \<^verbatim>\<open>b\<close> the remainder is \<^verbatim>\<open>a\<close>, line feed, \<^verbatim>\<open>b\<close>, and
  \<^verbatim>\<open>parse_managed_policies\<close> returns the import of \<^verbatim>\<open>a\<close>.
\<close>

theorem parse_managed_policies_import_line_feed:
  "take 7 (''import:a'' @ [CHR 0x0A] @ ''b'') = ''import:''
   \<and> drop 7 (''import:a'' @ [CHR 0x0A] @ ''b'') = ''a'' @ [CHR 0x0A] @ ''b''
   \<and> parse_managed_policies (scenario ''enabled'' None None) [''import:a'' @ [CHR 0x0A] @ ''b''] ''Admin''
       = Inr [ImportValue ''a'']"
  by (simp add: managed_policy_entry_def arn_prefix_def import_prefix_def import_group_def
      line_feed_def)

section \<open>The assemblers: outputs, the frame and the membership lists\<close>

lemma registered_outputs:
  assumes "registered c r out c'"
  shows "\<exists>t t'. template c (current_account c) = Some t
           \<and> template c' (current_account c) = Some t'
           \<and> (template_outputs (cfg_global (config c)) = ''enabled'' \<longrightarrow> outputs t' = outputs t @ [out])
           \<and> (template_outputs (cfg_global (config c)) \<noteq> ''enabled'' \<longrightarrow> outputs t' = outputs t)"
  using assms by (auto simp: registered_def outputs_enabled_def)

lemma registered_frame:
  assumes "registered c r out c'"
  shows "(\<forall>a. a \<noteq> current_account c \<longrightarrow> template c' a = template c a)
         \<and> template c' (current_account c) \<noteq> template c (current_account c)
         \<and> c'\<lparr>template := template c\<rparr> = c"
proof -
  from assms obtain t where
    t: "template c (current_account c) = Some t" and
    c': "c' = c\<lparr>template := (template c)(current_account c \<mapsto>
                 t\<lparr>resources := resources t @ [r],
                   outputs := outputs t @ (if outputs_enabled c then [out] else [])\<rparr>)\<rparr>"
    unfolding registered_def by blast
  let ?t' = "t\<lparr>resources := resources t @ [r],
               outputs := outputs t @ (if outputs_enabled c then [out] else [])\<rparr>"
  have "resources ?t' \<noteq> resources t" by simp
  then have "?t' \<noteq> t" by metis
  with t c' show ?thesis by simp
qed

lemma registered_resources:
  assumes "registered c r out c'"
  shows "\<exists>t t'. template c (current_account c) = Some t
           \<and> template c' (current_account c) = Some t'
           \<and> resources t' = resources t @ [r]"
  using assms by (auto simp: registered_def)

text \<open>
  C5. Each of the five assemblers, when it returns, has appended to the outputs of the
  template of the current account exactly one output if the flag
  \<^verbatim>\<open>template_outputs\<close> of the global section is \<^verbatim>\<open>enabled\<close>, and none otherwise. The
  export name of that output is \<^verbatim>\<open>${AWS::StackName}-\<close>, then the scrubbed identifier of the
  resource, then \<^verbatim>\<open>PolicyArn\<close> for a policy and \<^verbatim>\<open>Arn\<close> for the other four.
\<close>

theorem outputs_follow_the_flag:
  "(\<forall>c'. add_managed_policy c name doc model named = Inr c' \<longrightarrow>
      (\<exists>t t'. template c (current_account c) = Some t \<and> template c' (current_account c) = Some t'
         \<and> (template_outputs (cfg_global (config c)) = ''enabled'' \<longrightarrow>
              (\<exists>out. outputs t' = outputs t @ [out]
                 \<and> out_Export out
                     = Export (Sub (''${AWS::StackName}-'' @ scrub_name name @ ''PolicyArn''))))
         \<and> (template_outputs (cfg_global (config c)) \<noteq> ''enabled'' \<longrightarrow> outputs t' = outputs t)))
   \<and> (\<forall>c'. add_role c name model named = Inr c' \<longrightarrow>
      (\<exists>t t'. template c (current_account c) = Some t \<and> template c' (current_account c) = Some t'
         \<and> (template_outputs (cfg_global (config c)) = ''enabled'' \<longrightarrow>
              (\<exists>out. outputs t' = outputs t @ [out]
                 \<and> out_Export out
                     = Export (Sub (''${AWS::StackName}-'' @ scrub_name (name @ ''Role'') @ ''Arn''))))
         \<and> (template_outputs (cfg_global (config c)) \<noteq> ''enabled'' \<longrightarrow> outputs t' = outputs t)))
   \<and> (\<forall>c'. add_group c name model named = Inr c' \<longrightarrow>
      (\<exists>t t'. template c (current_account c) = Some t \<and> template c' (current_account c) = Some t'
         \<and> (template_outputs (cfg_global (config c)) = ''enabled'' \<longrightarrow>
              (\<exists>out. outputs t' = outputs t @ [out]
                 \<and> out_Export out
                     = Export (Sub (''${AWS::StackName}-'' @ scrub_name (name @ ''Group'') @ ''Arn''))))
         \<and> (template_outputs (cfg_global (config c)) \<noteq> ''enabled'' \<longrightarrow> outputs t' = outputs t)))
   \<and> (\<forall>c'. add_user c name model named = Inr c' \<longrightarrow>
      (\<exists>t t'. template c (current_account c) = Some t \<and> template c' (current_account c) = Some t'
         \<and> (template_outputs (cfg_global (config c)) = ''enabled'' \<longrightarrow>
              (\<exists>out. outputs t' = outputs t @ [out]
                 \<and> out_Export out
                     = Export (Sub (''${AWS::StackName}-'' @ scrub_name (name @ ''User'') @ ''Arn''))))
         \<and> (template_outputs (cfg_global (config c)) \<noteq> ''enabled'' \<longrightarrow> outputs t' = outputs t)))
   \<and> (\<forall>c'. create_instance_profile c name model named = Inr c' \<longrightarrow>
      (\<exists>t t'. template c (current_account c) = Some t \<and> template c' (current_account c) = Some t'
         \<and> (template_outputs (cfg_global (config c)) = ''enabled'' \<longrightarrow>
              (\<exists>out. outputs t' = outputs t @ [out]
                 \<and> out_Export out
                     = Export (Sub (''${AWS::StackName}-'' @ scrub_name (name @ ''InstanceProfile'')
                                     @ ''Arn''))))
         \<and> (template_outputs (cfg_global (config c)) \<noteq> ''enabled'' \<longrightarrow> outputs t' = outputs t)))"
proof (intro conjI allI impI)
  fix c' assume "add_managed_policy c name doc model named = Inr c'"
  then show "\<exists>t t'. template c (current_account c) = Some t \<and> template c' (current_account c) = Some t'
         \<and> (template_outputs (cfg_global (config c)) = ''enabled'' \<longrightarrow>
              (\<exists>out. outputs t' = outputs t @ [out]
                 \<and> out_Export out
                     = Export (Sub (''${AWS::StackName}-'' @ scrub_name name @ ''PolicyArn''))))
         \<and> (template_outputs (cfg_global (config c)) \<noteq> ''enabled'' \<longrightarrow> outputs t' = outputs t)"
    by (auto simp: add_managed_policy_Inr managed_policy_output_def dest!: registered_outputs)
next
  fix c' assume "add_role c name model named = Inr c'"
  then show "\<exists>t t'. template c (current_account c) = Some t \<and> template c' (current_account c) = Some t'
         \<and> (template_outputs (cfg_global (config c)) = ''enabled'' \<longrightarrow>
              (\<exists>out. outputs t' = outputs t @ [out]
                 \<and> out_Export out
                     = Export (Sub (''${AWS::StackName}-'' @ scrub_name (name @ ''Role'') @ ''Arn''))))
         \<and> (template_outputs (cfg_global (config c)) \<noteq> ''enabled'' \<longrightarrow> outputs t' = outputs t)"
    by (auto simp: add_role_Inr arn_output_def dest!: registered_outputs)
next
  fix c' assume "add_group c name model named = Inr c'"
  then show "\<exists>t t'. template c (current_account c) = Some t \<and> template c' (current_account c) = Some t'
         \<and> (template_outputs (cfg_global (config c)) = ''enabled'' \<longrightarrow>
              (\<exists>out. outputs t' = outputs t @ [out]
                 \<and> out_Export out
                     = Export (Sub (''${AWS::StackName}-'' @ scrub_name (name @ ''Group'') @ ''Arn''))))
         \<and> (template_outputs (cfg_global (config c)) \<noteq> ''enabled'' \<longrightarrow> outputs t' = outputs t)"
    by (auto simp: add_group_Inr arn_output_def dest!: registered_outputs)
next
  fix c' assume "add_user c name model named = Inr c'"
  then show "\<exists>t t'. template c (current_account c) = Some t \<and> template c' (current_account c) = Some t'
         \<and> (template_outputs (cfg_global (config c)) = ''enabled'' \<longrightarrow>
              (\<exists>out. outputs t' = outputs t @ [out]
                 \<and> out_Export out
                     = Export (Sub (''${AWS::StackName}-'' @ scrub_name (name @ ''User'') @ ''Arn''))))
         \<and> (template_outputs (cfg_global (config c)) \<noteq> ''enabled'' \<longrightarrow> outputs t' = outputs t)"
    by (auto simp: add_user_Inr arn_output_def dest!: registered_outputs)
next
  fix c' assume "create_instance_profile c name model named = Inr c'"
  then show "\<exists>t t'. template c (current_account c) = Some t \<and> template c' (current_account c) = Some t'
         \<and> (template_outputs (cfg_global (config c)) = ''enabled'' \<longrightarrow>
              (\<exists>out. outputs t' = outputs t @ [out]
                 \<and> out_Export out
                     = Export (Sub (''${AWS::StackName}-'' @ scrub_name (name @ ''InstanceProfile'')
                                     @ ''Arn''))))
         \<and> (template_outputs (cfg_global (config c)) \<noteq> ''enabled'' \<longrightarrow> outputs t' = outputs t)"
    by (auto simp: create_instance_profile_Inr arn_output_def dest!: registered_outputs)
qed

theorem outputs_follow_the_flag_witness:
  "(\<exists>c' t'. add_managed_policy ((scenario ''enabled'' None None)\<lparr>current_account := ''prod''\<rparr>) ''Read-Only'' (DocJson ()) empty_model False = Inr c'
        \<and> template c' ''prod'' = Some t'
        \<and> map out_Export (outputs t') = [Export (Sub ''${AWS::StackName}-ReadOnlyPolicyArn'')])
   \<and> (\<exists>c' t'. add_role ((scenario ''enabled'' None None)\<lparr>current_account := ''prod''\<rparr>) ''Admin'' (empty_model\<lparr>model_trusts := Some [''ec2.amazonaws.com'']\<rparr>) True = Inr c'
        \<and> template c' ''prod'' = Some t'
        \<and> map out_Export (outputs t') = [Export (Sub ''${AWS::StackName}-AdminRoleArn'')])
   \<and> (\<exists>c' t'. add_group ((scenario ''off'' None None)\<lparr>current_account := ''prod''\<rparr>) ''Ops'' empty_model True = Inr c'
        \<and> template c' ''prod'' = Some t'
        \<and> outputs t' = [])
   \<and> (\<exists>c' t'. add_user ((scenario ''enabled'' None None)\<lparr>current_account := ''prod''\<rparr>) ''j.doe'' empty_model True = Inr c'
        \<and> template c' ''prod'' = Some t'
        \<and> map out_Export (outputs t') = [Export (Sub ''${AWS::StackName}-jdoeUserArn'')])
   \<and> (\<exists>c' t'. create_instance_profile ((scenario ''off'' None None)\<lparr>current_account := ''prod''\<rparr>) ''Admin'' empty_model True = Inr c'
        \<and> template c' ''prod'' = Some t'
        \<and> outputs t' = [])"
proof (intro conjI)
  let ?c = "(scenario ''enabled'' None None)\<lparr>current_account := ''prod''\<rparr>"
  have "\<exists>c'. add_managed_policy ?c ''Read-Only'' (DocJson ()) empty_model False = Inr c'"
    by (simp add: add_managed_policy_Inr registered_def refusal_simps eval_simps)
  then obtain c' where ev: "add_managed_policy ?c ''Read-Only'' (DocJson ()) empty_model False = Inr c'"
    by blast
  note T = outputs_follow_the_flag [of ?c "''Read-Only''" "DocJson ()" empty_model False, THEN conjunct1, rule_format, OF ev]
  have cur: "current_account ?c = ''prod''" by simp
  have t0: "template ?c ''prod'' = Some \<lparr>resources = [], outputs = []\<rparr>"
    by (simp add: scenario_simps)
  have flag: "template_outputs (cfg_global (config ?c)) = ''enabled''"
    by (simp add: scenario_simps)
  have nm: "scrub_name ''Read-Only'' = ''ReadOnly''"
    by (simp add: scrubbed_char_def word_char_def)
  from T obtain t t' out where
    "template ?c (current_account ?c) = Some t" "template c' (current_account ?c) = Some t'"
    "outputs t' = outputs t @ [out]"
    "out_Export out = Export (Sub (''${AWS::StackName}-'' @ scrub_name ''Read-Only'' @ ''PolicyArn''))"
    using flag by blast
  then have r: "template c' ''prod'' = Some t'"
    "map out_Export (outputs t') = [Export (Sub ''${AWS::StackName}-ReadOnlyPolicyArn'')]"
    unfolding cur nm using t0 by simp_all
  show "\<exists>c' t'. add_managed_policy ?c ''Read-Only'' (DocJson ()) empty_model False = Inr c'
        \<and> template c' ''prod'' = Some t'
        \<and> map out_Export (outputs t') = [Export (Sub ''${AWS::StackName}-ReadOnlyPolicyArn'')]"
    by (rule exI [of _ c'], rule exI [of _ t']) (intro conjI ev r)
next
  let ?c = "(scenario ''enabled'' None None)\<lparr>current_account := ''prod''\<rparr>"
  have "\<exists>c'. add_role ?c ''Admin'' (empty_model\<lparr>model_trusts := Some [''ec2.amazonaws.com'']\<rparr>) True = Inr c'"
    by (simp add: add_role_Inr registered_def role_kw_args_def build_role_trust_def trust_principal_def dotted_name_def refusal_simps eval_simps)
  then obtain c' where ev: "add_role ?c ''Admin'' (empty_model\<lparr>model_trusts := Some [''ec2.amazonaws.com'']\<rparr>) True = Inr c'"
    by blast
  note T = outputs_follow_the_flag [of ?c "''Admin''" "DocJson ()" "empty_model\<lparr>model_trusts := Some [''ec2.amazonaws.com'']\<rparr>" True, THEN conjunct2, THEN conjunct1, rule_format, OF ev]
  have cur: "current_account ?c = ''prod''" by simp
  have t0: "template ?c ''prod'' = Some \<lparr>resources = [], outputs = []\<rparr>"
    by (simp add: scenario_simps)
  have flag: "template_outputs (cfg_global (config ?c)) = ''enabled''"
    by (simp add: scenario_simps)
  have nm: "scrub_name (''Admin'' @ ''Role'') = ''AdminRole''"
    by (simp add: scrubbed_char_def word_char_def)
  from T obtain t t' out where
    "template ?c (current_account ?c) = Some t" "template c' (current_account ?c) = Some t'"
    "outputs t' = outputs t @ [out]"
    "out_Export out = Export (Sub (''${AWS::StackName}-'' @ scrub_name (''Admin'' @ ''Role'') @ ''Arn''))"
    using flag by blast
  then have r: "template c' ''prod'' = Some t'"
    "map out_Export (outputs t') = [Export (Sub ''${AWS::StackName}-AdminRoleArn'')]"
    unfolding cur nm using t0 by simp_all
  show "\<exists>c' t'. add_role ?c ''Admin'' (empty_model\<lparr>model_trusts := Some [''ec2.amazonaws.com'']\<rparr>) True = Inr c'
        \<and> template c' ''prod'' = Some t'
        \<and> map out_Export (outputs t') = [Export (Sub ''${AWS::StackName}-AdminRoleArn'')]"
    by (rule exI [of _ c'], rule exI [of _ t']) (intro conjI ev r)
next
  let ?c = "(scenario ''off'' None None)\<lparr>current_account := ''prod''\<rparr>"
  have "\<exists>c'. add_group ?c ''Ops'' empty_model True = Inr c'"
    by (simp add: add_group_Inr registered_def group_kw_args_def refusal_simps eval_simps)
  then obtain c' where ev: "add_group ?c ''Ops'' empty_model True = Inr c'"
    by blast
  note T = outputs_follow_the_flag [of ?c "''Ops''" "DocJson ()" empty_model True, THEN conjunct2, THEN conjunct2, THEN conjunct1, rule_format, OF ev]
  have cur: "current_account ?c = ''prod''" by simp
  have t0: "template ?c ''prod'' = Some \<lparr>resources = [], outputs = []\<rparr>"
    by (simp add: scenario_simps)
  have flag: "template_outputs (cfg_global (config ?c)) \<noteq> ''enabled''"
    by (simp add: scenario_simps)
  from T obtain t t' where
    "template ?c (current_account ?c) = Some t" "template c' (current_account ?c) = Some t'"
    "outputs t' = outputs t"
    using flag by blast
  then have r: "template c' ''prod'' = Some t'"
    "outputs t' = []"
    unfolding cur using t0 by simp_all
  show "\<exists>c' t'. add_group ?c ''Ops'' empty_model True = Inr c'
        \<and> template c' ''prod'' = Some t'
        \<and> outputs t' = []"
    by (rule exI [of _ c'], rule exI [of _ t']) (intro conjI ev r)
next
  let ?c = "(scenario ''enabled'' None None)\<lparr>current_account := ''prod''\<rparr>"
  have "\<exists>c'. add_user ?c ''j.doe'' empty_model True = Inr c'"
    by (simp add: add_user_Inr registered_def user_kw_args_def refusal_simps eval_simps)
  then obtain c' where ev: "add_user ?c ''j.doe'' empty_model True = Inr c'"
    by blast
  note T = outputs_follow_the_flag [of ?c "''j.doe''" "DocJson ()" empty_model True, THEN conjunct2, THEN conjunct2, THEN conjunct2, THEN conjunct1, rule_format, OF ev]
  have cur: "current_account ?c = ''prod''" by simp
  have t0: "template ?c ''prod'' = Some \<lparr>resources = [], outputs = []\<rparr>"
    by (simp add: scenario_simps)
  have flag: "template_outputs (cfg_global (config ?c)) = ''enabled''"
    by (simp add: scenario_simps)
  have nm: "scrub_name (''j.doe'' @ ''User'') = ''jdoeUser''"
    by (simp add: scrubbed_char_def word_char_def)
  from T obtain t t' out where
    "template ?c (current_account ?c) = Some t" "template c' (current_account ?c) = Some t'"
    "outputs t' = outputs t @ [out]"
    "out_Export out = Export (Sub (''${AWS::StackName}-'' @ scrub_name (''j.doe'' @ ''User'') @ ''Arn''))"
    using flag by blast
  then have r: "template c' ''prod'' = Some t'"
    "map out_Export (outputs t') = [Export (Sub ''${AWS::StackName}-jdoeUserArn'')]"
    unfolding cur nm using t0 by simp_all
  show "\<exists>c' t'. add_user ?c ''j.doe'' empty_model True = Inr c'
        \<and> template c' ''prod'' = Some t'
        \<and> map out_Export (outputs t') = [Export (Sub ''${AWS::StackName}-jdoeUserArn'')]"
    by (rule exI [of _ c'], rule exI [of _ t']) (intro conjI ev r)
next
  let ?c = "(scenario ''off'' None None)\<lparr>current_account := ''prod''\<rparr>"
  have "\<exists>c'. create_instance_profile ?c ''Admin'' empty_model True = Inr c'"
    by (simp add: create_instance_profile_Inr registered_def refusal_simps eval_simps)
  then obtain c' where ev: "create_instance_profile ?c ''Admin'' empty_model True = Inr c'"
    by blast
  note T = outputs_follow_the_flag [of ?c "''Admin''" "DocJson ()" empty_model True, THEN conjunct2, THEN conjunct2, THEN conjunct2, THEN conjunct2, rule_format, OF ev]
  have cur: "current_account ?c = ''prod''" by simp
  have t0: "template ?c ''prod'' = Some \<lparr>resources = [], outputs = []\<rparr>"
    by (simp add: scenario_simps)
  have flag: "template_outputs (cfg_global (config ?c)) \<noteq> ''enabled''"
    by (simp add: scenario_simps)
  from T obtain t t' where
    "template ?c (current_account ?c) = Some t" "template c' (current_account ?c) = Some t'"
    "outputs t' = outputs t"
    using flag by blast
  then have r: "template c' ''prod'' = Some t'"
    "outputs t' = []"
    unfolding cur using t0 by simp_all
  show "\<exists>c' t'. create_instance_profile ?c ''Admin'' empty_model True = Inr c'
        \<and> template c' ''prod'' = Some t'
        \<and> outputs t' = []"
    by (rule exI [of _ c'], rule exI [of _ t']) (intro conjI ev r)
qed

text \<open>
  C9. Each of the five assemblers, when it returns, has changed the template of the
  current account, has left the template of every other account as it was, and has changed
  nothing else of the configuration object.
\<close>

theorem assembler_changes_one_template:
  "(\<forall>c'. add_managed_policy c name doc model named = Inr c' \<longrightarrow>
      (\<forall>a. a \<noteq> current_account c \<longrightarrow> template c' a = template c a)
      \<and> template c' (current_account c) \<noteq> template c (current_account c)
      \<and> c'\<lparr>template := template c\<rparr> = c)
   \<and> (\<forall>c'. add_role c name model named = Inr c' \<longrightarrow>
      (\<forall>a. a \<noteq> current_account c \<longrightarrow> template c' a = template c a)
      \<and> template c' (current_account c) \<noteq> template c (current_account c)
      \<and> c'\<lparr>template := template c\<rparr> = c)
   \<and> (\<forall>c'. add_group c name model named = Inr c' \<longrightarrow>
      (\<forall>a. a \<noteq> current_account c \<longrightarrow> template c' a = template c a)
      \<and> template c' (current_account c) \<noteq> template c (current_account c)
      \<and> c'\<lparr>template := template c\<rparr> = c)
   \<and> (\<forall>c'. add_user c name model named = Inr c' \<longrightarrow>
      (\<forall>a. a \<noteq> current_account c \<longrightarrow> template c' a = template c a)
      \<and> template c' (current_account c) \<noteq> template c (current_account c)
      \<and> c'\<lparr>template := template c\<rparr> = c)
   \<and> (\<forall>c'. create_instance_profile c name model named = Inr c' \<longrightarrow>
      (\<forall>a. a \<noteq> current_account c \<longrightarrow> template c' a = template c a)
      \<and> template c' (current_account c) \<noteq> template c (current_account c)
      \<and> c'\<lparr>template := template c\<rparr> = c)"
proof (intro conjI allI impI)
qed (auto simp: add_managed_policy_Inr add_role_Inr add_group_Inr add_user_Inr
       create_instance_profile_Inr dest!: registered_frame)

theorem assembler_changes_one_template_witness:
  "(\<exists>c'. add_managed_policy ((scenario ''enabled'' None None)\<lparr>current_account := ''prod'', template := [''prod'' \<mapsto> empty_template, ''dev'' \<mapsto> empty_template]\<rparr>) ''Read-Only'' (DocJson ()) empty_model False = Inr c'
        \<and> template c' ''dev'' = Some empty_template
        \<and> template c' ''prod'' \<noteq> Some empty_template)
   \<and> (\<exists>c'. add_role ((scenario ''enabled'' None None)\<lparr>current_account := ''prod'', template := [''prod'' \<mapsto> empty_template, ''dev'' \<mapsto> empty_template]\<rparr>) ''Admin'' (empty_model\<lparr>model_trusts := Some [''ec2.amazonaws.com'']\<rparr>) True = Inr c'
        \<and> template c' ''dev'' = Some empty_template
        \<and> template c' ''prod'' \<noteq> Some empty_template)
   \<and> (\<exists>c'. add_group ((scenario ''enabled'' None None)\<lparr>current_account := ''prod'', template := [''prod'' \<mapsto> empty_template, ''dev'' \<mapsto> empty_template]\<rparr>) ''Ops'' empty_model True = Inr c'
        \<and> template c' ''dev'' = Some empty_template
        \<and> template c' ''prod'' \<noteq> Some empty_template)
   \<and> (\<exists>c'. add_user ((scenario ''enabled'' None None)\<lparr>current_account := ''prod'', template := [''prod'' \<mapsto> empty_template, ''dev'' \<mapsto> empty_template]\<rparr>) ''j.doe'' empty_model True = Inr c'
        \<and> template c' ''dev'' = Some empty_template
        \<and> template c' ''prod'' \<noteq> Some empty_template)
   \<and> (\<exists>c'. create_instance_profile ((scenario ''enabled'' None None)\<lparr>current_account := ''prod'', template := [''prod'' \<mapsto> empty_template, ''dev'' \<mapsto> empty_template]\<rparr>) ''Admin'' empty_model True = Inr c'
        \<and> template c' ''dev'' = Some empty_template
        \<and> template c' ''prod'' \<noteq> Some empty_template)"
proof (intro conjI)
  let ?c = "(scenario ''enabled'' None None)\<lparr>current_account := ''prod'', template := [''prod'' \<mapsto> empty_template, ''dev'' \<mapsto> empty_template]\<rparr>"
  have "\<exists>c'. add_managed_policy ?c ''Read-Only'' (DocJson ()) empty_model False = Inr c'"
    by (simp add: add_managed_policy_Inr registered_def refusal_simps eval_simps)
  then obtain c' where ev: "add_managed_policy ?c ''Read-Only'' (DocJson ()) empty_model False = Inr c'"
    by blast
  note T = assembler_changes_one_template [of ?c "''Read-Only''" "DocJson ()" empty_model False, THEN conjunct1, rule_format, OF ev]
  have cur: "current_account ?c = ''prod''" by simp
  have t0: "template ?c ''prod'' = Some empty_template" "template ?c ''dev'' = Some empty_template"
    by simp_all
  from T have "template c' ''dev'' = template ?c ''dev''"
    "template c' (current_account ?c) \<noteq> template ?c (current_account ?c)"
    unfolding cur by simp_all
  then have r: "template c' ''dev'' = Some empty_template"
    "template c' ''prod'' \<noteq> Some empty_template"
    unfolding cur t0 by simp_all
  show "\<exists>c'. add_managed_policy ?c ''Read-Only'' (DocJson ()) empty_model False = Inr c'
        \<and> template c' ''dev'' = Some empty_template
        \<and> template c' ''prod'' \<noteq> Some empty_template"
    by (rule exI [of _ c']) (intro conjI ev r)
next
  let ?c = "(scenario ''enabled'' None None)\<lparr>current_account := ''prod'', template := [''prod'' \<mapsto> empty_template, ''dev'' \<mapsto> empty_template]\<rparr>"
  have "\<exists>c'. add_role ?c ''Admin'' (empty_model\<lparr>model_trusts := Some [''ec2.amazonaws.com'']\<rparr>) True = Inr c'"
    by (simp add: add_role_Inr registered_def role_kw_args_def build_role_trust_def trust_principal_def dotted_name_def refusal_simps eval_simps)
  then obtain c' where ev: "add_role ?c ''Admin'' (empty_model\<lparr>model_trusts := Some [''ec2.amazonaws.com'']\<rparr>) True = Inr c'"
    by blast
  note T = assembler_changes_one_template [of ?c "''Admin''" "DocJson ()" "empty_model\<lparr>model_trusts := Some [''ec2.amazonaws.com'']\<rparr>" True, THEN conjunct2, THEN conjunct1, rule_format, OF ev]
  have cur: "current_account ?c = ''prod''" by simp
  have t0: "template ?c ''prod'' = Some empty_template" "template ?c ''dev'' = Some empty_template"
    by simp_all
  from T have "template c' ''dev'' = template ?c ''dev''"
    "template c' (current_account ?c) \<noteq> template ?c (current_account ?c)"
    unfolding cur by simp_all
  then have r: "template c' ''dev'' = Some empty_template"
    "template c' ''prod'' \<noteq> Some empty_template"
    unfolding cur t0 by simp_all
  show "\<exists>c'. add_role ?c ''Admin'' (empty_model\<lparr>model_trusts := Some [''ec2.amazonaws.com'']\<rparr>) True = Inr c'
        \<and> template c' ''dev'' = Some empty_template
        \<and> template c' ''prod'' \<noteq> Some empty_template"
    by (rule exI [of _ c']) (intro conjI ev r)
next
  let ?c = "(scenario ''enabled'' None None)\<lparr>current_account := ''prod'', template := [''prod'' \<mapsto> empty_template, ''dev'' \<mapsto> empty_template]\<rparr>"
  have "\<exists>c'. add_group ?c ''Ops'' empty_model True = Inr c'"
    by (simp add: add_group_Inr registered_def group_kw_args_def refusal_simps eval_simps)
  then obtain c' where ev: "add_group ?c ''Ops'' empty_model True = Inr c'"
    by blast
  note T = assembler_changes_one_template [of ?c "''Ops''" "DocJson ()" empty_model True, THEN conjunct2, THEN conjunct2, THEN conjunct1, rule_format, OF ev]
  have cur: "current_account ?c = ''prod''" by simp
  have t0: "template ?c ''prod'' = Some empty_template" "template ?c ''dev'' = Some empty_template"
    by simp_all
  from T have "template c' ''dev'' = template ?c ''dev''"
    "template c' (current_account ?c) \<noteq> template ?c (current_account ?c)"
    unfolding cur by simp_all
  then have r: "template c' ''dev'' = Some empty_template"
    "template c' ''prod'' \<noteq> Some empty_template"
    unfolding cur t0 by simp_all
  show "\<exists>c'. add_group ?c ''Ops'' empty_model True = Inr c'
        \<and> template c' ''dev'' = Some empty_template
        \<and> template c' ''prod'' \<noteq> Some empty_template"
    by (rule exI [of _ c']) (intro conjI ev r)
next
  let ?c = "(scenario ''enabled'' None None)\<lparr>current_account := ''prod'', template := [''prod'' \<mapsto> empty_template, ''dev'' \<mapsto> empty_template]\<rparr>"
  have "\<exists>c'. add_user ?c ''j.doe'' empty_model True = Inr c'"
    by (simp add: add_user_Inr registered_def user_kw_args_def refusal_simps eval_simps)
  then obtain c' where ev: "add_user ?c ''j.doe'' empty_model True = Inr c'"
    by blast
  note T = assembler_changes_one_template [of ?c "''j.doe''" "DocJson ()" empty_model True, THEN conjunct2, THEN conjunct2, THEN conjunct2, THEN conjunct1, rule_format, OF ev]
  have cur: "current_account ?c = ''prod''" by simp
  have t0: "template ?c ''prod'' = Some empty_template" "template ?c ''dev'' = Some empty_template"
    by simp_all
  from T have "template c' ''dev'' = template ?c ''dev''"
    "template c' (current_account ?c) \<noteq> template ?c (current_account ?c)"
    unfolding cur by simp_all
  then have r: "template c' ''dev'' = Some empty_template"
    "template c' ''prod'' \<noteq> Some empty_template"
    unfolding cur t0 by simp_all
  show "\<exists>c'. add_user ?c ''j.doe'' empty_model True = Inr c'
        \<and> template c' ''dev'' = Some empty_template
        \<and> template c' ''prod'' \<noteq> Some empty_template"
    by (rule exI [of _ c']) (intro conjI ev r)
next
  let ?c = "(scenario ''enabled'' None None)\<lparr>current_account := ''prod'', template := [''prod'' \<mapsto> empty_template, ''dev'' \<mapsto> empty_template]\<rparr>"
  have "\<exists>c'. create_instance_profile ?c ''Admin'' empty_model True = Inr c'"
    by (simp add: create_instance_profile_Inr registered_def refusal_simps eval_simps)
  then obtain c' where ev: "create_instance_profile ?c ''Admin'' empty_model True = Inr c'"
    by blast
  note T = assembler_changes_one_template [of ?c "''Admin''" "DocJson ()" empty_model True, THEN conjunct2, THEN conjunct2, THEN conjunct2, THEN conjunct2, rule_format, OF ev]
  have cur: "current_account ?c = ''prod''" by simp
  have t0: "template ?c ''prod'' = Some empty_template" "template ?c ''dev'' = Some empty_template"
    by simp_all
  from T have "template c' ''dev'' = template ?c ''dev''"
    "template c' (current_account ?c) \<noteq> template ?c (current_account ?c)"
    unfolding cur by simp_all
  then have r: "template c' ''dev'' = Some empty_template"
    "template c' ''prod'' \<noteq> Some empty_template"
    unfolding cur t0 by simp_all
  show "\<exists>c'. create_instance_profile ?c ''Admin'' empty_model True = Inr c'
        \<and> template c' ''dev'' = Some empty_template
        \<and> template c' ''prod'' \<noteq> Some empty_template"
    by (rule exI [of _ c']) (intro conjI ev r)
qed

lemma parse_imports_map:
  "parse_imports c es
     = map (\<lambda>e. if import_prefix e then ImportValue (import_group e) else Str e) es"
  by (induction es) simp_all

lemma import_group_one_line:
  "line_feed \<notin> set e \<Longrightarrow> import_group e = drop 7 e"
  by (auto simp: import_group_def takeWhile_eq_all_conv dest: in_set_dropD)

text \<open>
  C7, as the code has it. \<^verbatim>\<open>add_managed_policy\<close> treats the three membership lists of a
  model alike: the groups, the users and the roles of the registered policy are each the
  list of the model after \<^verbatim>\<open>parse_imports\<close>. That function keeps the length of a list,
  turns an entry \<^verbatim>\<open>import:<export>\<close> without line feed into the import of \<^verbatim>\<open><export>\<close> and
  leaves an entry that does not begin with \<^verbatim>\<open>import:\<close> as the string it is.
\<close>

theorem managed_policy_members_all_expanded:
  "(\<forall>c'. add_managed_policy c name doc model named = Inr c' \<longrightarrow>
      (\<exists>t kw. template c' (current_account c) = Some t
         \<and> resources t \<noteq> [] \<and> last (resources t) = ManagedPolicy (scrub_name name) kw
         \<and> mp_Groups kw = (case model_groups model of None \<Rightarrow> [] | Some es \<Rightarrow> parse_imports c es)
         \<and> mp_Users kw = (case model_users model of None \<Rightarrow> [] | Some es \<Rightarrow> parse_imports c es)
         \<and> mp_Roles kw = (case model_roles model of None \<Rightarrow> [] | Some es \<Rightarrow> parse_imports c es)))
   \<and> length (parse_imports c es) = length es
   \<and> (\<forall>k<length es.
        (take 7 (es ! k) = ''import:'' \<and> line_feed \<notin> set (es ! k) \<longrightarrow>
           parse_imports c es ! k = ImportValue (drop 7 (es ! k)))
        \<and> (take 7 (es ! k) \<noteq> ''import:'' \<longrightarrow> parse_imports c es ! k = Str (es ! k)))"
proof (intro conjI allI impI)
  fix c' assume "add_managed_policy c name doc model named = Inr c'"
  then have "registered c (ManagedPolicy (scrub_name name) (managed_policy_kw_args c name doc model named))
       (managed_policy_output (scrub_name name)
          (mp_Description (managed_policy_kw_args c name doc model named))) c'"
    by (simp add: add_managed_policy_Inr)
  from registered_resources [OF this] obtain t t' where
    "template c (current_account c) = Some t"
    "template c' (current_account c) = Some t'"
    "resources t' = resources t @ [ManagedPolicy (scrub_name name) (managed_policy_kw_args c name doc model named)]"
    by blast
  then show "\<exists>t kw. template c' (current_account c) = Some t
         \<and> resources t \<noteq> [] \<and> last (resources t) = ManagedPolicy (scrub_name name) kw
         \<and> mp_Groups kw = (case model_groups model of None \<Rightarrow> [] | Some es \<Rightarrow> parse_imports c es)
         \<and> mp_Users kw = (case model_users model of None \<Rightarrow> [] | Some es \<Rightarrow> parse_imports c es)
         \<and> mp_Roles kw = (case model_roles model of None \<Rightarrow> [] | Some es \<Rightarrow> parse_imports c es)"
    by (simp add: managed_policy_kw_args_def)
next
  show "length (parse_imports c es) = length es"
    by (simp add: parse_imports_map)
next
  fix k assume "k < length es" "take 7 (es ! k) = ''import:'' \<and> line_feed \<notin> set (es ! k)"
  then show "parse_imports c es ! k = ImportValue (drop 7 (es ! k))"
    by (simp add: parse_imports_map import_prefix_def import_group_one_line)
next
  fix k assume "k < length es" "take 7 (es ! k) \<noteq> ''import:''"
  then show "parse_imports c es ! k = Str (es ! k)"
    by (simp add: parse_imports_map import_prefix_def)
qed

theorem managed_policy_members_all_expanded_witness:
  "(\<exists>c' t kw. add_managed_policy ((scenario ''off'' None None)\<lparr>current_account := ''prod''\<rparr>)
                 ''ReadOnly'' (DocJson ())
                 (empty_model\<lparr>model_groups := Some [''import:G''],
                              model_roles := Some [''import:X'', ''Dev'']\<rparr>) False = Inr c'
        \<and> template c' ''prod'' = Some t
        \<and> last (resources t) = ManagedPolicy ''ReadOnly'' kw
        \<and> mp_Groups kw = [ImportValue ''G''] \<and> mp_Users kw = []
        \<and> mp_Roles kw = [ImportValue ''X'', Str ''Dev''])
   \<and> length (parse_imports ((scenario ''off'' None None)\<lparr>current_account := ''prod''\<rparr>)
                [''import:X'', ''Dev'']) = 2
   \<and> parse_imports ((scenario ''off'' None None)\<lparr>current_account := ''prod''\<rparr>)
         [''import:X'', ''Dev''] ! 0 = ImportValue ''X''
   \<and> parse_imports ((scenario ''off'' None None)\<lparr>current_account := ''prod''\<rparr>)
         [''import:X'', ''Dev''] ! 1 = Str ''Dev''"
proof -
  let ?c = "(scenario ''off'' None None)\<lparr>current_account := ''prod''\<rparr>"
  let ?m = "empty_model\<lparr>model_groups := Some [''import:G''],
                        model_roles := Some [''import:X'', ''Dev'']\<rparr>"
  let ?es = "[''import:X'', ''Dev'']"
  note T = managed_policy_members_all_expanded [of ?c "''ReadOnly''" "DocJson ()" ?m False ?es]
  have "\<exists>c'. add_managed_policy ?c ''ReadOnly'' (DocJson ()) ?m False = Inr c'"
    by (simp add: add_managed_policy_Inr registered_def refusal_simps eval_simps)
  then obtain c' where ev: "add_managed_policy ?c ''ReadOnly'' (DocJson ()) ?m False = Inr c'"
    by blast
  have nm: "scrub_name ''ReadOnly'' = ''ReadOnly''"
    by (simp add: scrubbed_char_def word_char_def)
  have fields: "model_groups ?m = Some [''import:G'']" "model_users ?m = None"
    "model_roles ?m = Some [''import:X'', ''Dev'']"
    by (simp_all add: empty_model_def)
  have pi: "parse_imports ?c [''import:G''] = [ImportValue ''G'']"
    "parse_imports ?c [''import:X'', ''Dev''] = [ImportValue ''X'', Str ''Dev'']"
    by (simp_all add: import_prefix_def import_group_def line_feed_def)
  from T [THEN conjunct1, rule_format, OF ev] obtain t kw where
    f: "template c' (current_account ?c) = Some t"
       "last (resources t) = ManagedPolicy (scrub_name ''ReadOnly'') kw"
       "mp_Groups kw = (case model_groups ?m of None \<Rightarrow> [] | Some es \<Rightarrow> parse_imports ?c es)"
       "mp_Users kw = (case model_users ?m of None \<Rightarrow> [] | Some es \<Rightarrow> parse_imports ?c es)"
       "mp_Roles kw = (case model_roles ?m of None \<Rightarrow> [] | Some es \<Rightarrow> parse_imports ?c es)"
    by (elim exE conjE) (rule that; assumption)
  have r: "template c' ''prod'' = Some t" "last (resources t) = ManagedPolicy ''ReadOnly'' kw"
    "mp_Groups kw = [ImportValue ''G'']" "mp_Users kw = []"
    "mp_Roles kw = [ImportValue ''X'', Str ''Dev'']"
    using f unfolding nm fields pi
    by (simp_all add: import_prefix_def import_group_def line_feed_def)
  have first: "\<exists>c' t kw. add_managed_policy ?c ''ReadOnly'' (DocJson ()) ?m False = Inr c'
        \<and> template c' ''prod'' = Some t
        \<and> last (resources t) = ManagedPolicy ''ReadOnly'' kw
        \<and> mp_Groups kw = [ImportValue ''G''] \<and> mp_Users kw = []
        \<and> mp_Roles kw = [ImportValue ''X'', Str ''Dev'']"
    by (rule exI [of _ c'], rule exI [of _ t], rule exI [of _ kw]) (intro conjI ev r)
  have len: "length (parse_imports ?c ?es) = 2"
    using T [THEN conjunct2, THEN conjunct1] by simp
  have k0: "parse_imports ?c ?es ! 0 = ImportValue ''X''"
    using T [THEN conjunct2, THEN conjunct2, rule_format, of 0] by (simp add: line_feed_def)
  have k1: "parse_imports ?c ?es ! 1 = Str ''Dev''"
    using T [THEN conjunct2, THEN conjunct2, rule_format, of 1] by simp
  from first len k0 k1 show ?thesis by (intro conjI)
qed

text \<open>
  The claim C7 says that the role list is not expanded. With a dictionary for its document
  and the roles \<^verbatim>\<open>["import:X"]\<close> the registered policy has the role \<^verbatim>\<open>ImportValue("X")\<close>, not
  the string \<^verbatim>\<open>import:X\<close>.
\<close>

theorem managed_policy_roles_expanded:
  "add_managed_policy ((scenario ''off'' None None)\<lparr>current_account := ''prod''\<rparr>) ''ReadOnly''
       (DocJson ()) (empty_model\<lparr>model_roles := Some [''import:X'']\<rparr>) False
     = Inr ((scenario ''off'' None None)
             \<lparr>current_account := ''prod'',
              template := [''prod'' \<mapsto>
                \<lparr>resources =
                   [ManagedPolicy ''ReadOnly''
                      \<lparr>mp_Description = ''Managed Policy ReadOnly'',
                       mp_PolicyDocument = DocJson (),
                       mp_Groups = [], mp_Roles = [ImportValue ''X''], mp_Users = [],
                       mp_ManagedPolicyName = None, mp_DeletionPolicy = None\<rparr>],
                 outputs = []\<rparr>]\<rparr>)"
  by (simp add: add_managed_policy_def add_resource_def outputs_enabled_def
      refusal_simps deletion_policy_def import_prefix_def import_group_def
      line_feed_def scenario_simps scrubbed_char_def word_char_def Let_def)

section \<open>The fan-out: roles with their instance profile, policies with their document\<close>

text \<open>
  C6. When the body of the role loop returns for a role and an account, the template of
  that account has gained the role and, exactly when the trusts of the role contain
  \<^verbatim>\<open>ec2.amazonaws.com\<close>, behind it an instance profile whose only role is the reference to
  the role; the templates of the other accounts are as before. In particular the
  configuration of the account \<^verbatim>\<open>prod\<close> and the role \<^verbatim>\<open>Admin\<close> that trusts
  \<^verbatim>\<open>ec2.amazonaws.com\<close> gives the template of \<^verbatim>\<open>prod\<close> the role named \<^verbatim>\<open>Admin\<close>, whose trust
  document is the single statement of the service principal, and the instance profile.
\<close>

theorem role_brings_instance_profile:
  "(\<forall>c'. role_in_account name model c0 account = Inr c' \<longrightarrow>
      (\<exists>t t' trusts kw.
         model_trusts model = Some trusts
         \<and> role_kw_args (c0\<lparr>current_account := account\<rparr>) name model
               (names_roles (cfg_global (config c0))) = Inr kw
         \<and> template c0 account = Some t \<and> template c' account = Some t'
         \<and> resources t'
             = resources t @ [Role (scrub_name (name @ ''Role'')) kw]
                 @ (if ''ec2.amazonaws.com'' \<in> set trusts
                    then [InstanceProfile (scrub_name (name @ ''InstanceProfile''))
                            \<lparr>ip_Path = ''/'',
                             ip_Roles = [Ref (scrub_name (name @ ''Role''))],
                             ip_InstanceProfileName =
                               (if names_roles (cfg_global (config c0)) then Some name else None),
                             ip_DeletionPolicy = deletion_policy model\<rparr>]
                    else [])
         \<and> (\<forall>a. a \<noteq> account \<longrightarrow> template c' a = template c0 a)))
   \<and> (\<exists>c'. build_templates no_jinja
              (scenario ''enabled'' None
                 (Some [(''Admin'', empty_model\<lparr>model_trusts := Some [''ec2.amazonaws.com'']\<rparr>)]))
            = Inr c'
          \<and> map_option resources (template c' ''prod'')
              = Some [Role ''AdminRole''
                        \<lparr>role_Path = ''/'',
                         role_AssumeRolePolicyDocument =
                           \<lparr>Version = ''2012-10-17'',
                            Statement =
                              [\<lparr>Effect = ''Allow'', Principal = Some (Service ''ec2.amazonaws.com''),
                                Action = ''sts:AssumeRole'', Resource = None, Condition = None\<rparr>]\<rparr>,
                         role_ManagedPolicyArns = [], role_Policies = [],
                         role_RoleName = Some ''Admin'', role_DeletionPolicy = None\<rparr>,
                      InstanceProfile ''AdminInstanceProfile''
                        \<lparr>ip_Path = ''/'', ip_Roles = [Ref ''AdminRole''],
                         ip_InstanceProfileName = Some ''Admin'', ip_DeletionPolicy = None\<rparr>])"
proof (intro conjI allI impI)
  fix c' assume run: "role_in_account name model c0 account = Inr c'"
  let ?c = "c0\<lparr>current_account := account\<rparr>"
  let ?named = "names_roles (cfg_global (config c0))"
  from run obtain c1 where
    r: "add_role ?c name model ?named = Inr c1"
    by (auto simp: role_in_account_def Let_def split: sum.splits)
  then obtain kw where
    kw: "role_kw_args ?c name model ?named = Inr kw" and
    reg: "registered ?c (Role (scrub_name (name @ ''Role'')) kw)
            (arn_output (scrub_name (name @ ''Role'')) (''Role '' @ name @ '' ARN'')
               (GetAtt (scrub_name (name @ ''Role'')) ''Arn'')) c1"
    by (auto simp: add_role_Inr)
  from kw obtain trusts where tr: "model_trusts model = Some trusts"
    by (auto simp: role_kw_args_def split: option.splits)
  from registered_resources [OF reg] registered_frame [OF reg] obtain t t1 where
    t: "template c0 account = Some t" and
    t1: "template c1 account = Some t1"
        "resources t1 = resources t @ [Role (scrub_name (name @ ''Role'')) kw]" and
    f1: "\<forall>a. a \<noteq> account \<longrightarrow> template c1 a = template c0 a" and
    s1: "c1\<lparr>template := template ?c\<rparr> = ?c"
    by auto
  from s1 have cur: "current_account c1 = account" and cfg: "config c1 = config c0"
    by (metis config.select_convs(5) config.surjective config.update_convs(5,6),
        metis config.select_convs(1) config.surjective config.update_convs(5,6))
  show "\<exists>t t' trusts kw.
         model_trusts model = Some trusts
         \<and> role_kw_args (c0\<lparr>current_account := account\<rparr>) name model
               (names_roles (cfg_global (config c0))) = Inr kw
         \<and> template c0 account = Some t \<and> template c' account = Some t'
         \<and> resources t'
             = resources t @ [Role (scrub_name (name @ ''Role'')) kw]
                 @ (if ''ec2.amazonaws.com'' \<in> set trusts
                    then [InstanceProfile (scrub_name (name @ ''InstanceProfile''))
                            \<lparr>ip_Path = ''/'',
                             ip_Roles = [Ref (scrub_name (name @ ''Role''))],
                             ip_InstanceProfileName =
                               (if names_roles (cfg_global (config c0)) then Some name else None),
                             ip_DeletionPolicy = deletion_policy model\<rparr>]
                    else [])
         \<and> (\<forall>a. a \<noteq> account \<longrightarrow> template c' a = template c0 a)"
  proof (cases "''ec2.amazonaws.com'' \<in> set trusts")
    case False
    with run r tr have "c' = c1" by (simp add: role_in_account_def Let_def)
    with False tr kw t t1 f1 show ?thesis by auto
  next
    case True
    with run r tr cfg have "create_instance_profile c1 name model ?named = Inr c'"
      by (simp add: role_in_account_def Let_def)
    then have reg2: "registered c1 (InstanceProfile (scrub_name (name @ ''InstanceProfile''))
                        (instance_profile_kw_args name model ?named))
                (arn_output (scrub_name (name @ ''InstanceProfile''))
                   (''Instance profile for Role '' @ name @ '' ARN'')
                   (Ref (scrub_name (name @ ''InstanceProfile'')))) c'"
      by (simp add: create_instance_profile_Inr)
    from registered_resources [OF reg2] registered_frame [OF reg2] cur t1 obtain t' where
      "template c' account = Some t'"
      "resources t' = resources t1 @ [InstanceProfile (scrub_name (name @ ''InstanceProfile''))
                        (instance_profile_kw_args name model ?named)]"
      "\<forall>a. a \<noteq> account \<longrightarrow> template c' a = template c1 a"
      by auto
    with True tr kw t t1 f1 show ?thesis
      by (auto simp: instance_profile_kw_args_def)
  qed
next
  show "\<exists>c'. build_templates no_jinja
              (scenario ''enabled'' None
                 (Some [(''Admin'', empty_model\<lparr>model_trusts := Some [''ec2.amazonaws.com'']\<rparr>)]))
            = Inr c'
          \<and> map_option resources (template c' ''prod'')
              = Some [Role ''AdminRole''
                        \<lparr>role_Path = ''/'',
                         role_AssumeRolePolicyDocument =
                           \<lparr>Version = ''2012-10-17'',
                            Statement =
                              [\<lparr>Effect = ''Allow'', Principal = Some (Service ''ec2.amazonaws.com''),
                                Action = ''sts:AssumeRole'', Resource = None, Condition = None\<rparr>]\<rparr>,
                         role_ManagedPolicyArns = [], role_Policies = [],
                         role_RoleName = Some ''Admin'', role_DeletionPolicy = None\<rparr>,
                      InstanceProfile ''AdminInstanceProfile''
                        \<lparr>ip_Path = ''/'', ip_Roles = [Ref ''AdminRole''],
                         ip_InstanceProfileName = Some ''Admin'', ip_DeletionPolicy = None\<rparr>]"
    by (simp add: build_templates_def for_section_def account_context_def role_in_account_def
        add_role_def role_kw_args_def build_role_trust_def trust_principal_def dotted_name_def
        sts_statement_def create_instance_profile_def instance_profile_kw_args_def
        add_resource_def add_output_def outputs_enabled_def deletion_policy_def refusal_simps
        line_feed_def scenario_simps scrubbed_char_def word_char_def Let_def)
qed

theorem role_brings_instance_profile_witness:
  "(\<exists>c' t'. role_in_account ''Admin'' (empty_model\<lparr>model_trusts := Some [''ec2.amazonaws.com'']\<rparr>)
               (scenario ''enabled'' None None) ''prod'' = Inr c'
        \<and> template c' ''prod'' = Some t'
        \<and> map (\<lambda>r. case r of Role n _ \<Rightarrow> (''Role'', n) | InstanceProfile n _ \<Rightarrow> (''InstanceProfile'', n)
                       | _ \<Rightarrow> ([], [])) (resources t')
            = [(''Role'', ''AdminRole''), (''InstanceProfile'', ''AdminInstanceProfile'')])
   \<and> (\<exists>c' t'. role_in_account ''Fn'' (empty_model\<lparr>model_trusts := Some [''lambda.amazonaws.com'']\<rparr>)
               (scenario ''enabled'' None None) ''prod'' = Inr c'
        \<and> template c' ''prod'' = Some t'
        \<and> map (\<lambda>r. case r of Role n _ \<Rightarrow> (''Role'', n) | InstanceProfile n _ \<Rightarrow> (''InstanceProfile'', n)
                       | _ \<Rightarrow> ([], [])) (resources t')
            = [(''Role'', ''FnRole'')])"
proof (intro conjI)
  let ?c = "scenario ''enabled'' None None"
  let ?m = "empty_model\<lparr>model_trusts := Some [''ec2.amazonaws.com'']\<rparr>"
  have "\<exists>c'. role_in_account ''Admin'' ?m ?c ''prod'' = Inr c'"
    by (simp add: role_in_account_def add_role_def role_kw_args_def build_role_trust_def
        trust_principal_def dotted_name_def create_instance_profile_def add_resource_def
        add_output_def outputs_enabled_def refusal_simps eval_simps)
  then obtain c' where ev: "role_in_account ''Admin'' ?m ?c ''prod'' = Inr c'"
    by blast
  note T = role_brings_instance_profile
             [of "''Admin''" ?m ?c "''prod''", THEN conjunct1, rule_format, OF ev]
  have t0: "template ?c ''prod'' = Some \<lparr>resources = [], outputs = []\<rparr>"
    by (simp add: scenario_simps)
  have tr: "model_trusts ?m = Some [''ec2.amazonaws.com'']"
    by simp
  have nm: "scrub_name (''Admin'' @ ''Role'') = ''AdminRole''"
    "scrub_name (''Admin'' @ ''InstanceProfile'') = ''AdminInstanceProfile''"
    by (simp_all add: scrubbed_char_def word_char_def)
  from T obtain t t' trusts kw where
    f: "model_trusts ?m = Some trusts"
       "template ?c ''prod'' = Some t" "template c' ''prod'' = Some t'"
       "resources t'
             = resources t @ [Role (scrub_name (''Admin'' @ ''Role'')) kw]
                 @ (if ''ec2.amazonaws.com'' \<in> set trusts
                    then [InstanceProfile (scrub_name (''Admin'' @ ''InstanceProfile''))
                            \<lparr>ip_Path = ''/'',
                             ip_Roles = [Ref (scrub_name (''Admin'' @ ''Role''))],
                             ip_InstanceProfileName =
                               (if names_roles (cfg_global (config ?c)) then Some ''Admin'' else None),
                             ip_DeletionPolicy = deletion_policy ?m\<rparr>]
                    else [])"
    by (elim exE conjE) (rule that; assumption)
  from f(1) tr have trusts: "trusts = [''ec2.amazonaws.com'']" by simp
  from f(2) [unfolded t0] have "t = \<lparr>resources = [], outputs = []\<rparr>" by simp
  then have t: "resources t = []" by simp
  have r: "template c' ''prod'' = Some t'"
    "map (\<lambda>r. case r of Role n _ \<Rightarrow> (''Role'', n) | InstanceProfile n _ \<Rightarrow> (''InstanceProfile'', n)
                       | _ \<Rightarrow> ([], [])) (resources t')
            = [(''Role'', ''AdminRole''), (''InstanceProfile'', ''AdminInstanceProfile'')]"
    using f(3) apply assumption
    unfolding f(4) nm trusts t by simp
  show "\<exists>c' t'. role_in_account ''Admin'' ?m
               ?c ''prod'' = Inr c'
        \<and> template c' ''prod'' = Some t'
        \<and> map (\<lambda>r. case r of Role n _ \<Rightarrow> (''Role'', n) | InstanceProfile n _ \<Rightarrow> (''InstanceProfile'', n)
                       | _ \<Rightarrow> ([], [])) (resources t')
            = [(''Role'', ''AdminRole''), (''InstanceProfile'', ''AdminInstanceProfile'')]"
    by (rule exI [of _ c'], rule exI [of _ t']) (intro conjI ev r)
next
  let ?c = "scenario ''enabled'' None None"
  let ?m = "empty_model\<lparr>model_trusts := Some [''lambda.amazonaws.com'']\<rparr>"
  have "\<exists>c'. role_in_account ''Fn'' ?m ?c ''prod'' = Inr c'"
    by (simp add: role_in_account_def add_role_def role_kw_args_def build_role_trust_def
        trust_principal_def dotted_name_def create_instance_profile_def add_resource_def
        add_output_def outputs_enabled_def refusal_simps eval_simps)
  then obtain c' where ev: "role_in_account ''Fn'' ?m ?c ''prod'' = Inr c'"
    by blast
  note T = role_brings_instance_profile
             [of "''Fn''" ?m ?c "''prod''", THEN conjunct1, rule_format, OF ev]
  have t0: "template ?c ''prod'' = Some \<lparr>resources = [], outputs = []\<rparr>"
    by (simp add: scenario_simps)
  have tr: "model_trusts ?m = Some [''lambda.amazonaws.com'']"
    by simp
  have nm: "scrub_name (''Fn'' @ ''Role'') = ''FnRole''"
    "scrub_name (''Fn'' @ ''InstanceProfile'') = ''FnInstanceProfile''"
    by (simp_all add: scrubbed_char_def word_char_def)
  from T obtain t t' trusts kw where
    f: "model_trusts ?m = Some trusts"
       "template ?c ''prod'' = Some t" "template c' ''prod'' = Some t'"
       "resources t'
             = resources t @ [Role (scrub_name (''Fn'' @ ''Role'')) kw]
                 @ (if ''ec2.amazonaws.com'' \<in> set trusts
                    then [InstanceProfile (scrub_name (''Fn'' @ ''InstanceProfile''))
                            \<lparr>ip_Path = ''/'',
                             ip_Roles = [Ref (scrub_name (''Fn'' @ ''Role''))],
                             ip_InstanceProfileName =
                               (if names_roles (cfg_global (config ?c)) then Some ''Fn'' else None),
                             ip_DeletionPolicy = deletion_policy ?m\<rparr>]
                    else [])"
    by (elim exE conjE) (rule that; assumption)
  from f(1) tr have trusts: "trusts = [''lambda.amazonaws.com'']" by simp
  from f(2) [unfolded t0] have "t = \<lparr>resources = [], outputs = []\<rparr>" by simp
  then have t: "resources t = []" by simp
  have r: "template c' ''prod'' = Some t'"
    "map (\<lambda>r. case r of Role n _ \<Rightarrow> (''Role'', n) | InstanceProfile n _ \<Rightarrow> (''InstanceProfile'', n)
                       | _ \<Rightarrow> ([], [])) (resources t')
            = [(''Role'', ''FnRole'')]"
    using f(3) apply assumption
    unfolding f(4) nm trusts t by simp
  show "\<exists>c' t'. role_in_account ''Fn'' ?m
               ?c ''prod'' = Inr c'
        \<and> template c' ''prod'' = Some t'
        \<and> map (\<lambda>r. case r of Role n _ \<Rightarrow> (''Role'', n) | InstanceProfile n _ \<Rightarrow> (''InstanceProfile'', n)
                       | _ \<Rightarrow> ([], [])) (resources t')
            = [(''Role'', ''FnRole'')]"
    by (rule exI [of _ c'], rule exI [of _ t']) (intro conjI ev r)
qed




end
